theory Spec2Isabelle
  imports Main "HOL-Library.Word" "HOL-Library.Log_Nat"
begin

unbundle bit_operations_syntax

section \<open>The Television Interface Adaptor of src/emucore/TIA.cxx\<close>

text \<open>
  A shallow embedding of class TIA and of its nested graphical objects. Every member
  function becomes a function from the state it reads to the state it leaves behind.
  Signed 32-bit clocks are modelled as unbounded integers (signed overflow is undefined
  in C++, the clocks of one frame stay far below \<open>2^31\<close>); stores into the 16-bit
  position register and into 8-bit locals are wrapped explicitly; 8-, 16- and 32-bit
  unsigned registers are words.
\<close>

subsection \<open>C++ integer arithmetic\<close>

text \<open>Division and remainder of C++ truncate towards zero.\<close>

definition cdiv :: "int \<Rightarrow> int \<Rightarrow> int" where
  "cdiv a b = sgn a * sgn b * (\<bar>a\<bar> div \<bar>b\<bar>)"

definition crem :: "int \<Rightarrow> int \<Rightarrow> int" where
  "crem a b = a - b * cdiv a b"

text \<open>A store into an Int16 keeps the low 16 bits, read as two's complement.\<close>

definition int16 :: "int \<Rightarrow> int" where
  "int16 x = (x + 32768) mod 65536 - 32768"

text \<open>A store into a uInt8 keeps the low 8 bits.\<close>

definition uint8 :: "int \<Rightarrow> int" where
  "uint8 x = x mod 256"

text \<open>\<open>x >> 2\<close> on a signed value is an arithmetic shift: division by 4 rounding down.\<close>

definition asr2 :: "int \<Rightarrow> int" where
  "asr2 x = x div 4"

text \<open>The macros at the head of TIA.cxx.\<close>

abbreviation PIXEL_CLOCKS :: int where "PIXEL_CLOCKS \<equiv> 3"
abbreviation SCANLINE_CYCLES :: int where "SCANLINE_CYCLES \<equiv> 76"
abbreviation SCANLINE_CLOCKS :: int where "SCANLINE_CLOCKS \<equiv> 228"
abbreviation SCANLINE_PIXEL :: int where "SCANLINE_PIXEL \<equiv> 160"
abbreviation HBLANK_CLOCKS :: int where "HBLANK_CLOCKS \<equiv> 68"
abbreviation BUFFER_LINES :: int where "BUFFER_LINES \<equiv> 320"
abbreviation BUFFER_SIZE :: int where "BUFFER_SIZE \<equiv> 51200"

text \<open>The value 0x7FFFFFFF marks "no HMOVE" in myCurrentHMOVEPos and myPreviousHMOVEPos.\<close>

abbreviation NO_HMOVE :: int where "NO_HMOVE \<equiv> 2147483647"

text \<open>\<open>CLAMP_POS(reg)\<close>: \<open>if(reg < 0) { reg += SCANLINE_PIXEL; } reg %= SCANLINE_PIXEL;\<close>\<close>

definition CLAMP_POS :: "int \<Rightarrow> int" where
  "CLAMP_POS reg = crem (if reg < 0 then reg + SCANLINE_PIXEL else reg) SCANLINE_PIXEL"

text \<open>The horizontal position of a colour clock, as every handler computes it:
  \<open>(clock - myClockWhenFrameStarted) % SCANLINE_CLOCKS - HBLANK_CLOCKS\<close>.\<close>

definition hpos_of :: "int \<Rightarrow> int \<Rightarrow> int" where
  "hpos_of clock start = crem (clock - start) SCANLINE_CLOCKS - HBLANK_CLOCKS"

subsection \<open>Moveable objects (AbstractMoveableTIAObject)\<close>

text \<open>The pointers into the static mask tables of TIATables, as the table and the
  indices they were taken at.\<close>

datatype maskptr =
    PxMask int int int int
  | MxMask int int int int
  | BLMask int int int
  | DisabledMask int
  | PFMask int

record tiaobject =
  isEnabled :: bool

definition handleEnabled :: "bool \<Rightarrow> 'a tiaobject_scheme \<Rightarrow> 'a tiaobject_scheme" where
  "handleEnabled nonzero ob = ob\<lparr>isEnabled := nonzero\<rparr>"

record moveable = tiaobject +
  myHM :: "8 word"
  myVDEL :: bool
  myPos :: int
  myMotionClock :: int
  myStart :: int
  myHMmmr :: bool
  myMask :: maskptr

datatype objkind = PlayerKind | MissileKind | BallKind

text \<open>The motion clock an HMxx value stands for: \<open>(value ^ 0x80) >> 4\<close>.\<close>

definition motclk_of :: "8 word \<Rightarrow> int" where
  "motclk_of v = uint (drop_bit 4 (v XOR 0x80))"

definition moveable_reset :: "'a moveable_scheme \<Rightarrow> 'a moveable_scheme" where
  "moveable_reset ob = ob\<lparr>myPos := 0, myMotionClock := 0, myHM := 0, myVDEL := False,
     myHMmmr := False\<rparr>"

definition handleVDEL :: "8 word \<Rightarrow> 'a moveable_scheme \<Rightarrow> 'a moveable_scheme" where
  "handleVDEL v ob = ob\<lparr>myVDEL := (v AND 0x01 \<noteq> 0)\<rparr>"

text \<open>\<open>handleHM\<close> reads the system's cycle counter, the clock at which the frame
  started and the position of the active HMOVE from the owning TIA; they are the first
  three arguments.\<close>

definition handleHM :: "int \<Rightarrow> int \<Rightarrow> int \<Rightarrow> 8 word \<Rightarrow> 'a moveable_scheme \<Rightarrow> 'a moveable_scheme" where
  "handleHM cycles start cur value0 ob =
    (let v = value0 AND 0xF0 in
     if myHM ob = v then ob
     else
       let clock = cycles * PIXEL_CLOCKS;
           hpos = hpos_of clock start in
       if cur \<noteq> NO_HMOVE \<and> hpos < min (cur + 6 + myMotionClock ob * 4) 7 then
         (let newMotion = motclk_of v in
          if newMotion > myMotionClock ob \<or> hpos \<le> min (cur + 6 + newMotion * 4) 7 then
            ob\<lparr>myPos := CLAMP_POS (int16 (myPos ob - (newMotion - myMotionClock ob))),
               myMotionClock := newMotion,
               myHM := v\<rparr>
          else
            ob\<lparr>myPos := CLAMP_POS (int16 (myPos ob - (15 - myMotionClock ob))),
               myMotionClock := 15,
               myHMmmr := (if v \<noteq> 0x70 \<and> v \<noteq> 0x80 then True else myHMmmr ob),
               myHM := v\<rparr>)
       else ob\<lparr>myHM := v\<rparr>)"

definition handleHMOVE :: "int \<Rightarrow> int \<Rightarrow> 'a moveable_scheme \<Rightarrow> 'a moveable_scheme" where
  "handleHMOVE cycles start ob =
    (let clock = cycles * PIXEL_CLOCKS;
         hpos = hpos_of clock start;
         ob1 = (if hpos + HBLANK_CLOCKS < HBLANK_CLOCKS \<and> myHMmmr ob then
                  (let cycle_fix = int16 (17 - cdiv (hpos + HBLANK_CLOCKS + 7) 4)
                   in ob\<lparr>myPos := int16 (crem (myPos ob + cycle_fix) SCANLINE_PIXEL)\<rparr>)
                else ob);
         ob2 = ob1\<lparr>myHMmmr := False\<rparr>
     in
       if hpos \<ge> -5 \<and> hpos < 97 then ob2\<lparr>myMotionClock := 0\<rparr>
       else
         let mc0 = motclk_of (myHM ob2);
             mc1 = (if hpos \<ge> 97 \<and> hpos < 151 then
                      (let skip_motclks = int16 (asr2 (SCANLINE_PIXEL - hpos - 6));
                           m = mc0 - skip_motclks
                       in if m < 0 then 0 else m)
                    else mc0);
             mc2 = (if hpos \<ge> -56 \<and> hpos < -5 then
                      (let max_motclks = int16 (asr2 (7 - (hpos + 5)))
                       in if mc1 > max_motclks then max_motclks else mc1)
                    else mc1);
             p = (if hpos < -5 \<or> hpos \<ge> 157 then int16 (myPos ob2 + (8 - mc2))
                  else myPos ob2)
         in ob2\<lparr>myMotionClock := mc2, myPos := CLAMP_POS p\<rparr>)"

text \<open>\<open>applyActiveHMOVEMotion(hpos, pos)\<close> returns the new value of \<open>pos\<close>.\<close>

definition applyActiveHMOVEMotion :: "int \<Rightarrow> int \<Rightarrow> int \<Rightarrow> int \<Rightarrow> int" where
  "applyActiveHMOVEMotion cur motionClock hpos pos =
    (if hpos < min (cur + 6 + 16 * 4) 7 then
       (let decrements_passed = asr2 (hpos - (cur + 4));
            pos1 = int16 (pos + 8)
        in if motionClock - decrements_passed > 0 then
             (let pos2 = int16 (pos1 - (motionClock - decrements_passed))
              in if pos2 < 0 then int16 (pos2 + SCANLINE_PIXEL) else pos2)
           else pos1)
     else pos)"

text \<open>\<open>applyPreviousHMOVEMotion(hpos, pos)\<close>; \<open>motclk\<close> and \<open>motclk_passed\<close> are
  uInt8 locals, their difference is computed in int.\<close>

definition applyPreviousHMOVEMotion :: "int \<Rightarrow> 8 word \<Rightarrow> int \<Rightarrow> int \<Rightarrow> int" where
  "applyPreviousHMOVEMotion prev motion hpos pos =
    (if prev \<noteq> NO_HMOVE then
       (let motclk = motclk_of motion in
        if hpos \<le> prev - SCANLINE_CLOCKS + 5 + motclk * 4 then
          (let motclk_passed = uint8 (asr2 (hpos - (prev - SCANLINE_CLOCKS + 6)))
           in int16 (pos - (motclk - motclk_passed)))
        else pos)
     else pos)"

text \<open>The virtual \<open>getActiveHPos\<close> and \<open>getPreviousHPos\<close> of players, missiles and
  the ball.\<close>

fun getActiveHPos :: "objkind \<Rightarrow> int \<Rightarrow> int" where
  "getActiveHPos PlayerKind hpos = (if hpos < 7 then 3 else crem (hpos + 5) SCANLINE_PIXEL)"
| "getActiveHPos MissileKind hpos = (if hpos < 7 then 2 else crem (hpos + 4) SCANLINE_PIXEL)"
| "getActiveHPos BallKind hpos = (if hpos < 7 then 2 else crem (hpos + 4) SCANLINE_PIXEL)"

fun getPreviousHPos :: "objkind \<Rightarrow> int \<Rightarrow> int" where
  "getPreviousHPos PlayerKind hpos = (if hpos < -2 then 3 else crem (hpos + 5) SCANLINE_PIXEL)"
| "getPreviousHPos MissileKind hpos = (if hpos < -1 then 2 else crem (hpos + 4) SCANLINE_PIXEL)"
| "getPreviousHPos BallKind hpos = (if hpos < 0 then 2 else crem (hpos + 4) SCANLINE_PIXEL)"

text \<open>\<open>handleRESChange\<close> is not virtual, so \<open>handleRES\<close> always runs the one of
  the moveable object, which stores the new position.\<close>

definition handleRESChange :: "int \<Rightarrow> 'a moveable_scheme \<Rightarrow> 'a moveable_scheme" where
  "handleRESChange newx ob = ob\<lparr>myPos := int16 newx\<rparr>"

definition handleRES :: "objkind \<Rightarrow> int \<Rightarrow> int \<Rightarrow> int \<Rightarrow> int \<Rightarrow> 'a moveable_scheme \<Rightarrow> 'a moveable_scheme" where
  "handleRES k cycles start cur prev ob =
    (let clock = cycles * PIXEL_CLOCKS;
         hpos = hpos_of clock start;
         newx = (if cur \<noteq> NO_HMOVE then
                   applyActiveHMOVEMotion cur (myMotionClock ob) hpos (int16 (getActiveHPos k hpos))
                 else
                   applyPreviousHMOVEMotion prev (myHM ob) hpos (int16 (getPreviousHPos k hpos)))
     in if newx \<noteq> myPos ob then handleRESChange newx ob else ob)"

definition handlePendingMotions :: "int \<Rightarrow> 'a moveable_scheme \<Rightarrow> 'a moveable_scheme" where
  "handlePendingMotions cur ob =
    (let ob1 = (if cur \<noteq> NO_HMOVE \<and> cur \<ge> 97 \<and> cur < 157 then
                  (let p = int16 (myPos ob - myMotionClock ob)
                   in ob\<lparr>myPos := (if p < 0 then int16 (p + SCANLINE_PIXEL) else p)\<rparr>)
                else ob)
     in if myHMmmr ob1 then
          (let p = int16 (myPos ob1 - 17)
           in ob1\<lparr>myPos := (if p < 0 then int16 (p + SCANLINE_PIXEL) else p)\<rparr>)
        else ob1)"


subsection \<open>The write registers\<close>

text \<open>Modelled from the spec: the register numbers are an enumeration of TIATables.hxx,
  which is not under src; section 6 of the specification lists the 45 write registers
  in address order, and \<open>decode_wreg\<close> numbers them in that order. The switch
  statements of the source name the registers, as the model does.\<close>

datatype wreg =
    VSYNC | VBLANK | WSYNC | RSYNC | NUSIZ0 | NUSIZ1 | COLUP0 | COLUP1 | COLUPF | COLUBK
  | CTRLPF | REFP0 | REFP1 | PF0 | PF1 | PF2 | RESP0 | RESP1 | RESM0 | RESM1 | RESBL
  | AUDC0 | AUDC1 | AUDF0 | AUDF1 | AUDV0 | AUDV1 | GRP0 | GRP1 | ENAM0 | ENAM1 | ENABL
  | HMP0 | HMP1 | HMM0 | HMM1 | HMBL | VDELP0 | VDELP1 | VDELBL | RESMP0 | RESMP1
  | HMOVE | HMCLR | CXCLR | NoWriteReg

definition wreg_order :: "wreg list" where
  "wreg_order =
    [VSYNC, VBLANK, WSYNC, RSYNC, NUSIZ0, NUSIZ1, COLUP0, COLUP1, COLUPF, COLUBK,
     CTRLPF, REFP0, REFP1, PF0, PF1, PF2, RESP0, RESP1, RESM0, RESM1, RESBL,
     AUDC0, AUDC1, AUDF0, AUDF1, AUDV0, AUDV1, GRP0, GRP1, ENAM0, ENAM1, ENABL,
     HMP0, HMP1, HMM0, HMM1, HMBL, VDELP0, VDELP1, VDELBL, RESMP0, RESMP1,
     HMOVE, HMCLR, CXCLR]"

definition decode_wreg :: "16 word \<Rightarrow> wreg" where
  "decode_wreg addr =
    (let a = unat (addr AND 0x003f)
     in if a < length wreg_order then wreg_order ! a else NoWriteReg)"

text \<open>\<open>AbstractMoveableTIAObject::handleRegisterUpdate\<close>: HMCLR and HMOVE reach every
  moveable object. \<open>handleHMOVE\<close> is declared non-virtual, so the call made here runs
  the one of the moveable object.\<close>

definition moveable_handleRegisterUpdate ::
  "int \<Rightarrow> int \<Rightarrow> int \<Rightarrow> wreg \<Rightarrow> 8 word \<Rightarrow> 'a moveable_scheme \<Rightarrow> 'a moveable_scheme" where
  "moveable_handleRegisterUpdate cycles start cur addr v ob =
    (case addr of
       HMCLR \<Rightarrow> handleHM cycles start cur v ob
     | HMOVE \<Rightarrow> handleHMOVE cycles start ob
     | _ \<Rightarrow> ob)"

subsection \<open>Players (AbstractPlayer, Player0, Player1)\<close>

record player = moveable +
  myGRP :: "8 word"
  myREFP :: bool
  mySuppress :: "8 word"
  myDGRP :: "8 word"
  myCurrentGRP :: "8 word"
  myNUSIZ :: "8 word"

definition player_reset :: "player \<Rightarrow> player" where
  "player_reset p = (moveable_reset p)\<lparr>myGRP := 0, myDGRP := 0, player.myNUSIZ := 0,
     myREFP := False, myCurrentGRP := 0, mySuppress := 0, myMask := PxMask 0 0 0 0\<rparr>"

text \<open>\<open>TIATables::GRPReflect\<close> is the first argument.\<close>

definition handleCurrentGRP :: "(8 word \<Rightarrow> 8 word) \<Rightarrow> player \<Rightarrow> player" where
  "handleCurrentGRP GRPReflect p =
    (let grp0 = (if myVDEL p then myDGRP p else myGRP p)
     in p\<lparr>myCurrentGRP := (if myREFP p then GRPReflect grp0 else grp0)\<rparr>)"

definition handleGRP :: "(8 word \<Rightarrow> 8 word) \<Rightarrow> 8 word \<Rightarrow> player \<Rightarrow> player" where
  "handleGRP GRPReflect v p =
    (let p1 = handleCurrentGRP GRPReflect (p\<lparr>myGRP := v\<rparr>)
     in handleEnabled (myCurrentGRP p1 \<noteq> 0) p1)"

definition handleDelayedGRP :: "(8 word \<Rightarrow> 8 word) \<Rightarrow> 8 word \<Rightarrow> player \<Rightarrow> player" where
  "handleDelayedGRP GRPReflect v p =
    (let p1 = handleCurrentGRP GRPReflect (p\<lparr>myDGRP := myGRP p\<rparr>)
     in handleEnabled (myCurrentGRP p1 \<noteq> 0) p1)"

definition player_handleNUSIZ :: "8 word \<Rightarrow> player \<Rightarrow> player" where
  "player_handleNUSIZ v p = p\<lparr>player.myNUSIZ := v\<rparr>"

definition handleREFP :: "(8 word \<Rightarrow> 8 word) \<Rightarrow> 8 word \<Rightarrow> player \<Rightarrow> player" where
  "handleREFP GRPReflect v p = handleCurrentGRP GRPReflect (p\<lparr>myREFP := (v AND 0x08 \<noteq> 0)\<rparr>)"

definition player_handleVDEL :: "(8 word \<Rightarrow> 8 word) \<Rightarrow> 8 word \<Rightarrow> player \<Rightarrow> player" where
  "player_handleVDEL GRPReflect v p =
    (let p1 = handleCurrentGRP GRPReflect (handleVDEL v p)
     in handleEnabled (myCurrentGRP p1 \<noteq> 0) p1)"

definition player_updateMask :: "player \<Rightarrow> player" where
  "player_updateMask p = p\<lparr>myMask := PxMask (myPos p AND 0x03) (uint (mySuppress p))
     (uint (player.myNUSIZ p AND 0x07)) (SCANLINE_PIXEL - (myPos p AND 0xFC))\<rparr>"

text \<open>\<open>Player0::handleRegisterUpdate\<close> and \<open>Player1::handleRegisterUpdate\<close>; the flag
  tells which of the two players it is. The RESPn cases are commented out in the source.\<close>

definition player_handleRegisterUpdate ::
  "(8 word \<Rightarrow> 8 word) \<Rightarrow> bool \<Rightarrow> int \<Rightarrow> int \<Rightarrow> int \<Rightarrow> wreg \<Rightarrow> 8 word \<Rightarrow> player \<Rightarrow> player" where
  "player_handleRegisterUpdate GRPReflect second cycles start cur addr v p0 =
    (let p = moveable_handleRegisterUpdate cycles start cur addr v p0 in
     if \<not> second then
       (case addr of
          HMP0 \<Rightarrow> handleHM cycles start cur v p
        | GRP0 \<Rightarrow> handleGRP GRPReflect v p
        | GRP1 \<Rightarrow> handleDelayedGRP GRPReflect v p
        | NUSIZ0 \<Rightarrow> (player_handleNUSIZ v p)\<lparr>mySuppress := 0\<rparr>
        | REFP0 \<Rightarrow> handleREFP GRPReflect v p
        | VDELP0 \<Rightarrow> player_handleVDEL GRPReflect v p
        | _ \<Rightarrow> p)
     else
       (case addr of
          HMP1 \<Rightarrow> handleHM cycles start cur v p
        | GRP1 \<Rightarrow> handleGRP GRPReflect v p
        | GRP0 \<Rightarrow> handleDelayedGRP GRPReflect v p
        | NUSIZ1 \<Rightarrow> (player_handleNUSIZ v p)\<lparr>mySuppress := 0\<rparr>
        | REFP1 \<Rightarrow> handleREFP GRPReflect v p
        | VDELP1 \<Rightarrow> player_handleVDEL GRPReflect v p
        | _ \<Rightarrow> p))"

subsection \<open>Particles: missiles and the ball\<close>

record particle = moveable +
  myENABLE :: bool

definition handleENABLE :: "8 word \<Rightarrow> 'a particle_scheme \<Rightarrow> 'a particle_scheme" where
  "handleENABLE v ob = ob\<lparr>myENABLE := (v AND 0x02 \<noteq> 0)\<rparr>"

record missile = particle +
  myNUSIZ :: "8 word"
  myRESMP :: bool

definition missile_reset :: "missile \<Rightarrow> missile" where
  "missile_reset m = (moveable_reset m)\<lparr>myENABLE := False, missile.myNUSIZ := 0,
     myRESMP := False, myMask := MxMask 0 0 0 0\<rparr>"

definition missile_handleEnabled :: "missile \<Rightarrow> missile" where
  "missile_handleEnabled m = handleEnabled (myENABLE m \<and> \<not> myRESMP m) m"

definition missile_handleNUSIZ :: "8 word \<Rightarrow> missile \<Rightarrow> missile" where
  "missile_handleNUSIZ v m = m\<lparr>missile.myNUSIZ := v\<rparr>"

text \<open>\<open>handleRESMP\<close> reads the position and the motion clock of the missile's player
  and the position of the active HMOVE.\<close>

definition handleRESMP :: "int \<Rightarrow> player \<Rightarrow> 8 word \<Rightarrow> missile \<Rightarrow> missile" where
  "handleRESMP cur pl v m =
    (let m1 =
       (if myRESMP m \<and> \<not> (v AND 0x02 \<noteq> 0) then
          (let middle = (if missile.myNUSIZ m AND 0x07 = 0x05 then 8
                         else if missile.myNUSIZ m AND 0x07 = 0x07 then 16 else 4);
               p0 = int16 (myPos pl + middle);
               p1 = (if cur \<noteq> NO_HMOVE then
                       int16 (int16 (p0 - (8 - myMotionClock pl)) + (8 - myMotionClock m))
                     else p0)
           in m\<lparr>myPos := CLAMP_POS p1\<rparr>)
        else m)
     in m1\<lparr>myRESMP := (v AND 0x02 \<noteq> 0)\<rparr>)"

definition missile_updateMask :: "missile \<Rightarrow> missile" where
  "missile_updateMask m =
    (let pos = myPos m; nusiz = missile.myNUSIZ m;
         size = uint (drop_bit 4 (nusiz AND 0x30))
     in if myHMmmr m then
          (if crem pos 4 = 3 then
             m\<lparr>myMask := MxMask ((pos - 1) AND 0x03) (uint (nusiz AND 0x07)) (size OR 1)
                  (SCANLINE_PIXEL - ((pos - 1) AND 0xFC))\<rparr>
           else if crem pos 4 = 2 then m\<lparr>myMask := DisabledMask 0\<rparr>
           else m\<lparr>myMask := MxMask (pos AND 0x03) (uint (nusiz AND 0x07)) size
                  (SCANLINE_PIXEL - (pos AND 0xFC))\<rparr>)
        else m\<lparr>myMask := MxMask (pos AND 0x03) (uint (nusiz AND 0x07)) size
                  (SCANLINE_PIXEL - (pos AND 0xFC))\<rparr>)"

text \<open>\<open>Missile0::handleRegisterUpdate\<close> and \<open>Missile1::handleRegisterUpdate\<close>; \<open>pl\<close>
  is the missile's player.\<close>

definition missile_handleRegisterUpdate ::
  "bool \<Rightarrow> int \<Rightarrow> int \<Rightarrow> int \<Rightarrow> int \<Rightarrow> player \<Rightarrow> wreg \<Rightarrow> 8 word \<Rightarrow> missile \<Rightarrow> missile" where
  "missile_handleRegisterUpdate second cycles start cur prev pl addr v m0 =
    (let m = moveable_handleRegisterUpdate cycles start cur addr v m0 in
     if \<not> second then
       (case addr of
          ENAM0 \<Rightarrow> missile_handleEnabled (handleENABLE v m)
        | HMM0 \<Rightarrow> handleHM cycles start cur v m
        | NUSIZ0 \<Rightarrow> missile_handleNUSIZ v m
        | RESM0 \<Rightarrow> handleRES MissileKind cycles start cur prev m
        | RESMP0 \<Rightarrow> handleRESMP cur pl v m
        | _ \<Rightarrow> m)
     else
       (case addr of
          ENAM1 \<Rightarrow> missile_handleEnabled (handleENABLE v m)
        | HMM1 \<Rightarrow> handleHM cycles start cur v m
        | NUSIZ1 \<Rightarrow> missile_handleNUSIZ v m
        | RESM1 \<Rightarrow> handleRES MissileKind cycles start cur prev m
        | RESMP1 \<Rightarrow> handleRESMP cur pl v m
        | _ \<Rightarrow> m))"

record ball = particle +
  myCTRLPF :: "8 word"
  myDENABLE :: bool
  myCurrentEnabled :: bool

definition ball_reset :: "ball \<Rightarrow> ball" where
  "ball_reset b = (moveable_reset b)\<lparr>myENABLE := False, ball.myCTRLPF := 0,
     myDENABLE := False, myCurrentEnabled := False, myMask := BLMask 0 0 0\<rparr>"

definition handleCurrentEnabled :: "ball \<Rightarrow> ball" where
  "handleCurrentEnabled b =
    (let b1 = b\<lparr>myCurrentEnabled := (if myVDEL b then myDENABLE b else myENABLE b)\<rparr>
     in handleEnabled (myCurrentEnabled b1) b1)"

definition ball_handleCTRLPF :: "8 word \<Rightarrow> ball \<Rightarrow> ball" where
  "ball_handleCTRLPF v b = b\<lparr>ball.myCTRLPF := v\<rparr>"

definition handleGRP1 :: "8 word \<Rightarrow> ball \<Rightarrow> ball" where
  "handleGRP1 v b = handleCurrentEnabled (b\<lparr>myDENABLE := myENABLE b\<rparr>)"

definition ball_updateMask :: "ball \<Rightarrow> ball" where
  "ball_updateMask b = b\<lparr>myMask := BLMask (myPos b AND 0x03)
     (uint (drop_bit 4 (ball.myCTRLPF b AND 0x30))) (SCANLINE_PIXEL - (myPos b AND 0xFC))\<rparr>"

definition ball_handleRegisterUpdate ::
  "int \<Rightarrow> int \<Rightarrow> int \<Rightarrow> int \<Rightarrow> wreg \<Rightarrow> 8 word \<Rightarrow> ball \<Rightarrow> ball" where
  "ball_handleRegisterUpdate cycles start cur prev addr v b0 =
    (let b = moveable_handleRegisterUpdate cycles start cur addr v b0 in
     case addr of
       CTRLPF \<Rightarrow> ball_handleCTRLPF v b
     | ENABL \<Rightarrow> handleCurrentEnabled (handleENABLE v b)
     | GRP1 \<Rightarrow> handleGRP1 v b
     | HMBL \<Rightarrow> handleHM cycles start cur v b
     | RESBL \<Rightarrow> handleRES BallKind cycles start cur prev b
     | VDELBL \<Rightarrow> handleCurrentEnabled (handleVDEL v b)
     | _ \<Rightarrow> b)"

subsection \<open>The playfield\<close>

record playfield = tiaobject +
  myCTRLPF :: "8 word"
  myPF :: "32 word"
  myPriorityAndScore :: "8 word"
  myMask :: maskptr

definition playfield_reset :: "playfield \<Rightarrow> playfield" where
  "playfield_reset f = f\<lparr>playfield.myCTRLPF := 0, myPF := 0, myPriorityAndScore := 0,
     playfield.myMask := PFMask 0\<rparr>"

definition playfield_handleCTRLPF :: "8 word \<Rightarrow> playfield \<Rightarrow> playfield" where
  "playfield_handleCTRLPF v f = f\<lparr>playfield.myCTRLPF := v,
     myPriorityAndScore := push_bit 5 (v AND 0x06),
     playfield.myMask := PFMask (uint (v AND 0x01))\<rparr>"

definition playfield_handleRegisterUpdate :: "wreg \<Rightarrow> 8 word \<Rightarrow> playfield \<Rightarrow> playfield" where
  "playfield_handleRegisterUpdate addr v f =
    (case addr of
       CTRLPF \<Rightarrow> playfield_handleCTRLPF v f
     | PF0 \<Rightarrow> (let pf = (myPF f AND 0x000FFFF0) OR (ucast (drop_bit 4 v) AND 0x0F)
               in handleEnabled (pf \<noteq> 0) (f\<lparr>myPF := pf\<rparr>))
     | PF1 \<Rightarrow> (let pf = (myPF f AND 0x000FF00F) OR push_bit 4 (ucast v)
               in handleEnabled (pf \<noteq> 0) (f\<lparr>myPF := pf\<rparr>))
     | PF2 \<Rightarrow> (let pf = (myPF f AND 0x00000FFF) OR push_bit 12 (ucast v)
               in handleEnabled (pf \<noteq> 0) (f\<lparr>myPF := pf\<rparr>))
     | _ \<Rightarrow> f)"


subsection \<open>What TIA.cxx takes from files that are not under src\<close>

datatype tiacolor =
  BKColor | PFColor | P0Color | P1Color | M0Color | M1Color | BLColor | HBLANKColor

text \<open>
  TIATables.hxx and TIATables.cxx are not under src. The constants and tables TIA.cxx
  reads from them are the fields of this record, which every function that needs one
  takes as its first argument: the object bits of \<open>enum TIABit\<close>, the collision bits
  \<open>Cx_...\<close>, and the tables \<open>PokeDelay\<close>, \<open>CollisionMask\<close>,
  \<open>HMOVEBlankEnableCycles\<close>, \<open>PxPosResetWhen\<close> and \<open>GRPReflect\<close>.

  The six \<open>getEnabled(hpos)\<close> members are declared in TIA.hxx and defined nowhere
  under src. They are parameters as well: each is a function of the owner's
  \<open>myDisabledObjects\<close>, of the object it is called on and of \<open>hpos\<close>.
\<close>

record tables =
  P0Bit :: "8 word"
  M0Bit :: "8 word"
  P1Bit :: "8 word"
  M1Bit :: "8 word"
  BLBit :: "8 word"
  PFBit :: "8 word"
  ScoreBit :: "8 word"
  PriorityBit :: "8 word"
  Cx_M0P1 :: "16 word"
  Cx_M0P0 :: "16 word"
  Cx_M1P0 :: "16 word"
  Cx_M1P1 :: "16 word"
  Cx_P0PF :: "16 word"
  Cx_P0BL :: "16 word"
  Cx_P1PF :: "16 word"
  Cx_P1BL :: "16 word"
  Cx_M0PF :: "16 word"
  Cx_M0BL :: "16 word"
  Cx_M1PF :: "16 word"
  Cx_M1BL :: "16 word"
  Cx_BLPF :: "16 word"
  Cx_P0P1 :: "16 word"
  Cx_M0M1 :: "16 word"
  PokeDelay :: "wreg \<Rightarrow> int"
  CollisionMask :: "8 word \<Rightarrow> 16 word"
  HMOVEBlankEnableCycles :: "int \<Rightarrow> bool"
  PxPosResetWhen :: "int \<Rightarrow> int \<Rightarrow> int \<Rightarrow> int"
  GRPReflect :: "8 word \<Rightarrow> 8 word"
  getEnabledPF :: "8 word \<Rightarrow> playfield \<Rightarrow> int \<Rightarrow> 8 word"
  getEnabledBL :: "8 word \<Rightarrow> ball \<Rightarrow> int \<Rightarrow> 8 word"
  getEnabledP0 :: "8 word \<Rightarrow> player \<Rightarrow> int \<Rightarrow> 8 word"
  getEnabledP1 :: "8 word \<Rightarrow> player \<Rightarrow> int \<Rightarrow> 8 word"
  getEnabledM0 :: "8 word \<Rightarrow> missile \<Rightarrow> int \<Rightarrow> 8 word"
  getEnabledM1 :: "8 word \<Rightarrow> missile \<Rightarrow> int \<Rightarrow> 8 word"

text \<open>
  The host system (System.hxx, M6502.hxx: not under src) as far as the TIA uses it:
  the cycle counter, the processor's stop request (\<open>m6502().stop()\<close>), and whether
  the last access was a read.
\<close>

record system =
  cycles :: int
  stopRequested :: bool
  lastAccessWasRead :: bool

text \<open>The settings and the console's frame rate, read by \<open>reset\<close> and \<open>frameReset\<close>:
  \<open>getBool("tiadriven")\<close>, \<open>getInt("framerate")\<close>, \<open>getBool("colorloss")\<close>, and
  whether \<open>myConsole.getFramerate() > 55.0\<close>.\<close>

record config =
  tiadriven :: bool
  framerate :: int
  colorloss :: bool
  framerateAbove55 :: bool

subsection \<open>The state of a TIA\<close>

text \<open>
  The two frame buffers are memories from offsets to bytes; \<open>myFramePointer\<close> is an
  offset into the current frame buffer. The float \<open>myFramerate\<close> and the sound device
  are outside the embedding.
\<close>

record tia =
  mySystem :: system
  myCurrentFrameBuffer :: "int \<Rightarrow> 8 word"
  myPreviousFrameBuffer :: "int \<Rightarrow> 8 word"
  myFramePointer :: int
  myFramePointerOffset :: int
  myFramePointerClocks :: int
  myFrameYStart :: int
  myFrameHeight :: int
  myStopDisplayOffset :: int
  myClockWhenFrameStarted :: int
  myClockStartDisplay :: int
  myClockStopDisplay :: int
  myClockAtLastUpdate :: int
  myClocksToEndOfScanLine :: int
  myScanlineCountForLastFrame :: int
  myMaximumNumberOfScanlines :: int
  myStartScanline :: int
  myVSYNCFinishClock :: int
  myVSYNC :: "8 word"
  myVBLANK :: "8 word"
  myPriorityEncoder :: "nat \<Rightarrow> 8 word \<Rightarrow> tiacolor"
  myColor :: "tiacolor \<Rightarrow> 32 word"
  myFixedColor :: "tiacolor \<Rightarrow> 32 word"
  myColorPtrFixed :: bool
  myCollision :: "16 word"
  myCollisionEnabledMask :: "32 word"
  myAUDV0 :: "8 word"
  myAUDV1 :: "8 word"
  myAUDC0 :: "8 word"
  myAUDC1 :: "8 word"
  myAUDF0 :: "8 word"
  myAUDF1 :: "8 word"
  myDumpDisabledCycle :: int
  myDumpEnabled :: bool
  myINPT4 :: "8 word"
  myINPT5 :: "8 word"
  myHMOVEBlankEnabled :: bool
  myAllowHMOVEBlanks :: bool
  myTIAPinsDriven :: bool
  myDisabledObjects :: "8 word"
  myColorLossEnabled :: bool
  myPartialFrameFlag :: bool
  myAutoFrameEnabled :: bool
  myFrameCounter :: "32 word"
  myPALFrameCounter :: "32 word"
  myBitsEnabled :: bool
  myCollisionsEnabled :: bool
  myCurrentHMOVEPos :: int
  myPreviousHMOVEPos :: int
  myPlayer0 :: player
  myPlayer1 :: player
  myMissile0 :: missile
  myMissile1 :: missile
  myBall :: ball
  myPlayfield :: playfield

text \<open>\<open>myColorPtr\<close> points at \<open>myFixedColor\<close> or at \<open>myColor\<close>.\<close>

definition myColorPtr :: "tia \<Rightarrow> tiacolor \<Rightarrow> 32 word" where
  "myColorPtr s = (if myColorPtrFixed s then myFixedColor s else myColor s)"

text \<open>\<open>memset(buffer + off, v, n)\<close>.\<close>

definition memset :: "(int \<Rightarrow> 8 word) \<Rightarrow> int \<Rightarrow> 8 word \<Rightarrow> int \<Rightarrow> (int \<Rightarrow> 8 word)" where
  "memset buf off v n = (\<lambda>i. if off \<le> i \<and> i < off + n then v else buf i)"

text \<open>A store of a 32-bit unsigned value into an Int32 or the reverse keeps the bits.\<close>

definition uint32 :: "int \<Rightarrow> int" where
  "uint32 x = x mod 4294967296"

text \<open>\<open>scanlines()\<close> and \<open>clocksThisLine()\<close> of TIA.hxx compute in unsigned 32-bit
  arithmetic.\<close>

definition scanlines :: "tia \<Rightarrow> int" where
  "scanlines s =
     uint32 (cycles (mySystem s) * PIXEL_CLOCKS - myClockWhenFrameStarted s) div SCANLINE_CLOCKS"

definition clocksThisLine :: "tia \<Rightarrow> int" where
  "clocksThisLine s =
     uint32 (cycles (mySystem s) * PIXEL_CLOCKS - myClockWhenFrameStarted s) mod SCANLINE_CLOCKS"

subsection \<open>Enabling objects and collisions\<close>

definition toggleBit :: "8 word \<Rightarrow> 8 word \<Rightarrow> tia \<Rightarrow> bool \<times> tia" where
  "toggleBit b mode s =
    (let on = (if mode = 0 \<or> mode = 1 then mode \<noteq> 0 else \<not> (myDisabledObjects s AND b \<noteq> 0))
     in (on, if on then s\<lparr>myDisabledObjects := myDisabledObjects s OR b\<rparr>
             else s\<lparr>myDisabledObjects := myDisabledObjects s AND NOT b\<rparr>))"

definition enableBits :: "tables \<Rightarrow> bool \<Rightarrow> tia \<Rightarrow> tia" where
  "enableBits tb mode s =
    (let m = (if mode then 1 else 0);
         s1 = snd (toggleBit (P0Bit tb) m s);
         s2 = snd (toggleBit (P1Bit tb) m s1);
         s3 = snd (toggleBit (M0Bit tb) m s2);
         s4 = snd (toggleBit (M1Bit tb) m s3);
         s5 = snd (toggleBit (BLBit tb) m s4)
     in snd (toggleBit (PFBit tb) m s5))"

definition toggleBits :: "tables \<Rightarrow> tia \<Rightarrow> bool \<times> tia" where
  "toggleBits tb s =
    (let s1 = s\<lparr>myBitsEnabled := \<not> myBitsEnabled s\<rparr>
     in (myBitsEnabled s1, enableBits tb (myBitsEnabled s1) s1))"

text \<open>The mask \<open>toggleCollision\<close> computes from the 16 enable bits.\<close>

definition collisionMaskOf :: "tables \<Rightarrow> 16 word \<Rightarrow> 16 word" where
  "collisionMaskOf tb enabled =
    (let m0 = 0xffff;
         m1 = (if enabled AND ucast (P0Bit tb) = 0 then
                 m0 AND NOT (Cx_M0P0 tb OR Cx_M1P0 tb OR Cx_P0PF tb OR Cx_P0BL tb OR Cx_P0P1 tb)
               else m0);
         m2 = (if enabled AND ucast (P1Bit tb) = 0 then
                 m1 AND NOT (Cx_M0P1 tb OR Cx_M1P1 tb OR Cx_P1PF tb OR Cx_P1BL tb OR Cx_P0P1 tb)
               else m1);
         m3 = (if enabled AND ucast (M0Bit tb) = 0 then
                 m2 AND NOT (Cx_M0P0 tb OR Cx_M0P1 tb OR Cx_M0PF tb OR Cx_M0BL tb OR Cx_M0M1 tb)
               else m2);
         m4 = (if enabled AND ucast (M1Bit tb) = 0 then
                 m3 AND NOT (Cx_M1P0 tb OR Cx_M1P1 tb OR Cx_M1PF tb OR Cx_M1BL tb OR Cx_M0M1 tb)
               else m3);
         m5 = (if enabled AND ucast (BLBit tb) = 0 then
                 m4 AND NOT (Cx_P0BL tb OR Cx_P1BL tb OR Cx_M0BL tb OR Cx_M1BL tb OR Cx_BLPF tb)
               else m4)
     in if enabled AND ucast (PFBit tb) = 0 then
          m5 AND NOT (Cx_P0PF tb OR Cx_P1PF tb OR Cx_M0PF tb OR Cx_M1PF tb OR Cx_BLPF tb)
        else m5)"

definition toggleCollision :: "tables \<Rightarrow> 8 word \<Rightarrow> 8 word \<Rightarrow> tia \<Rightarrow> bool \<times> tia" where
  "toggleCollision tb b mode s =
    (let enabled0 = (ucast (drop_bit 16 (myCollisionEnabledMask s)) :: 16 word);
         on = (if mode = 0 \<or> mode = 1 then mode \<noteq> 0 else \<not> (enabled0 AND ucast b \<noteq> 0));
         enabled = (if on then enabled0 OR ucast b else enabled0 AND NOT (ucast b));
         mask = collisionMaskOf tb enabled
     in (on, s\<lparr>myCollisionEnabledMask := push_bit 16 (ucast enabled) OR ucast mask\<rparr>))"

definition enableCollisions :: "tables \<Rightarrow> bool \<Rightarrow> tia \<Rightarrow> tia" where
  "enableCollisions tb mode s =
    (let m = (if mode then 1 else 0);
         s1 = snd (toggleCollision tb (P0Bit tb) m s);
         s2 = snd (toggleCollision tb (P1Bit tb) m s1);
         s3 = snd (toggleCollision tb (M0Bit tb) m s2);
         s4 = snd (toggleCollision tb (M1Bit tb) m s3);
         s5 = snd (toggleCollision tb (BLBit tb) m s4)
     in snd (toggleCollision tb (PFBit tb) m s5))"

definition toggleCollisions :: "tables \<Rightarrow> tia \<Rightarrow> bool \<times> tia" where
  "toggleCollisions tb s =
    (let s1 = s\<lparr>myCollisionsEnabled := \<not> myCollisionsEnabled s\<rparr>
     in (myCollisionsEnabled s1, enableCollisions tb (myCollisionsEnabled s1) s1))"

definition toggleHMOVEBlank :: "tia \<Rightarrow> bool \<times> tia" where
  "toggleHMOVEBlank s =
    (let s1 = s\<lparr>myAllowHMOVEBlanks := (if myAllowHMOVEBlanks s then False else True)\<rparr>
     in (myAllowHMOVEBlanks s1, s1))"

text \<open>One entry of the priority encoder, as the two loops of \<open>toggleFixedColors\<close>
  compute it; the later assignments win.\<close>

definition priorityEntry :: "tables \<Rightarrow> bool \<Rightarrow> nat \<Rightarrow> 8 word \<Rightarrow> tiacolor" where
  "priorityEntry tb on x enabled =
    (if enabled AND PriorityBit tb \<noteq> 0 then
       (if enabled AND PFBit tb \<noteq> 0 then PFColor
        else if enabled AND BLBit tb \<noteq> 0 then BLColor
        else if enabled AND P0Bit tb \<noteq> 0 then P0Color
        else if enabled AND M0Bit tb \<noteq> 0 then M0Color
        else if enabled AND P1Bit tb \<noteq> 0 then P1Color
        else if enabled AND M1Bit tb \<noteq> 0 then M1Color
        else BKColor)
     else
       (if enabled AND P0Bit tb \<noteq> 0 then P0Color
        else if enabled AND M0Bit tb \<noteq> 0 then M0Color
        else if enabled AND P1Bit tb \<noteq> 0 then P1Color
        else if enabled AND M1Bit tb \<noteq> 0 then M1Color
        else if enabled AND PFBit tb \<noteq> 0 then
          (if \<not> on \<and> enabled AND ScoreBit tb \<noteq> 0 then (if x = 0 then P0Color else P1Color)
           else PFColor)
        else if enabled AND BLBit tb \<noteq> 0 then BLColor
        else BKColor))"

definition toggleFixedColors :: "tables \<Rightarrow> 8 word \<Rightarrow> tia \<Rightarrow> bool \<times> tia" where
  "toggleFixedColors tb mode s =
    (let on = (if mode = 0 \<or> mode = 1 then mode \<noteq> 0 else \<not> myColorPtrFixed s)
     in (on, s\<lparr>myColorPtrFixed := on,
                myPriorityEncoder := (\<lambda>x enabled.
                   if x < 2 then priorityEntry tb on x enabled
                   else myPriorityEncoder s x enabled)\<rparr>))"


subsection \<open>Reset and frame boundaries\<close>

definition clearBuffers :: "tia \<Rightarrow> tia" where
  "clearBuffers s = s\<lparr>myCurrentFrameBuffer := memset (myCurrentFrameBuffer s) 0 0 BUFFER_SIZE,
     myPreviousFrameBuffer := memset (myPreviousFrameBuffer s) 0 0 BUFFER_SIZE\<rparr>"

definition fixedColorsNTSC :: "tiacolor \<Rightarrow> 32 word" where
  "fixedColorsNTSC c = (case c of
      P0Color \<Rightarrow> 0x30303030 | P1Color \<Rightarrow> 0x16161616 | M0Color \<Rightarrow> 0x38383838
    | M1Color \<Rightarrow> 0x12121212 | BLColor \<Rightarrow> 0x7e7e7e7e | PFColor \<Rightarrow> 0x76767676
    | BKColor \<Rightarrow> 0x0a0a0a0a | HBLANKColor \<Rightarrow> 0x0e0e0e0e)"

definition fixedColorsPAL :: "tiacolor \<Rightarrow> 32 word" where
  "fixedColorsPAL c = (case c of
      P0Color \<Rightarrow> 0x62626262 | P1Color \<Rightarrow> 0x26262626 | M0Color \<Rightarrow> 0x68686868
    | M1Color \<Rightarrow> 0x2e2e2e2e | BLColor \<Rightarrow> 0xdededede | PFColor \<Rightarrow> 0xd8d8d8d8
    | BKColor \<Rightarrow> 0x1c1c1c1c | HBLANKColor \<Rightarrow> 0x0e0e0e0e)"

definition frameReset :: "config \<Rightarrow> tia \<Rightarrow> tia" where
  "frameReset cfg s0 =
    (let s1 = (clearBuffers s0)\<lparr>myFramePointer := 0,
                 myFramePointerOffset := SCANLINE_PIXEL * myFrameYStart s0,
                 myAutoFrameEnabled := (framerate cfg \<le> 0)\<rparr>;
         s2 = (if framerateAbove55 cfg then
                 s1\<lparr>myFixedColor := fixedColorsNTSC, myColorLossEnabled := False,
                    myMaximumNumberOfScanlines := 290\<rparr>
               else
                 s1\<lparr>myFixedColor := fixedColorsPAL, myColorLossEnabled := colorloss cfg,
                    myMaximumNumberOfScanlines := 342\<rparr>);
         scanlines0 = myFrameYStart s2 + myFrameHeight s2;
         scanlines1 = (if myMaximumNumberOfScanlines s2 = 290 then max scanlines0 262
                       else max scanlines0 312);
         off = SCANLINE_CLOCKS * min scanlines1 BUFFER_LINES;
         start = cycles (mySystem s2) * PIXEL_CLOCKS
     in s2\<lparr>myStopDisplayOffset := off,
           myClockWhenFrameStarted := start,
           myClockStartDisplay := start,
           myClockStopDisplay := start + off,
           myClockAtLastUpdate := start,
           myClocksToEndOfScanLine := SCANLINE_CLOCKS,
           myVSYNCFinishClock := NO_HMOVE\<rparr>)"

definition reset :: "tables \<Rightarrow> config \<Rightarrow> tia \<Rightarrow> tia" where
  "reset tb cfg s0 =
    (let s1 = s0\<lparr>myDisabledObjects := 0xFF, myAllowHMOVEBlanks := True,
                 myVSYNC := 0, myVBLANK := 0, myColor := (\<lambda>c. 0),
                 myCollision := 0, myCollisionEnabledMask := 0xFFFFFFFF,
                 myCurrentHMOVEPos := NO_HMOVE, myPreviousHMOVEPos := NO_HMOVE,
                 myHMOVEBlankEnabled := False\<rparr>;
         s2 = (enableBits tb True s1)\<lparr>myDumpEnabled := False, myDumpDisabledCycle := 0,
                 myINPT4 := 0x80, myINPT5 := 0x80,
                 myTIAPinsDriven := tiadriven cfg,
                 myFrameCounter := 0, myPALFrameCounter := 0,
                 myScanlineCountForLastFrame := 0\<rparr>;
         s3 = s2\<lparr>myPlayfield := playfield_reset (myPlayfield s2),
                 myPlayer0 := player_reset (myPlayer0 s2),
                 myPlayer1 := player_reset (myPlayer1 s2),
                 myMissile0 := missile_reset (myMissile0 s2),
                 myMissile1 := missile_reset (myMissile1 s2),
                 myBall := ball_reset (myBall s2)\<rparr>
     in frameReset cfg (snd (toggleFixedColors tb 0 s3)))"

definition systemCyclesReset :: "tia \<Rightarrow> tia" where
  "systemCyclesReset s =
    (let cyc = cycles (mySystem s);
         clocks = cyc * PIXEL_CLOCKS
     in s\<lparr>myDumpDisabledCycle := myDumpDisabledCycle s - cyc,
          myClockWhenFrameStarted := myClockWhenFrameStarted s - clocks,
          myClockStartDisplay := myClockStartDisplay s - clocks,
          myClockStopDisplay := myClockStopDisplay s - clocks,
          myClockAtLastUpdate := myClockAtLastUpdate s - clocks,
          myVSYNCFinishClock := myVSYNCFinishClock s - clocks\<rparr>)"

text \<open>\<open>mySystem->resetCycles()\<close>: the system notifies its devices through
  \<open>systemCyclesReset\<close> right before it sets its cycle counter to zero (the comment on
  \<open>systemCyclesReset\<close> in TIA.hxx).\<close>

definition resetCycles :: "tia \<Rightarrow> tia" where
  "resetCycles s = (let s1 = systemCyclesReset s in s1\<lparr>mySystem := (mySystem s1)\<lparr>cycles := 0\<rparr>\<rparr>)"

definition colorLoss :: "bool \<Rightarrow> (tiacolor \<Rightarrow> 32 word) \<Rightarrow> (tiacolor \<Rightarrow> 32 word)" where
  "colorLoss isOdd col = (\<lambda>c. if c = HBLANKColor then col c
                             else if isOdd then col c OR 0x01010101 else col c AND 0xfefefefe)"

definition startFrame :: "tia \<Rightarrow> tia" where
  "startFrame s0 =
    (let s1 = s0\<lparr>myCurrentFrameBuffer := myPreviousFrameBuffer s0,
                 myPreviousFrameBuffer := myCurrentFrameBuffer s0\<rparr>;
         clocks = uint32 (cycles (mySystem s1) * PIXEL_CLOCKS - myClockWhenFrameStarted s1)
                    mod SCANLINE_CLOCKS;
         s2 = resetCycles s1;
         s3 = s2\<lparr>myClockWhenFrameStarted := - clocks,
                 myClockStartDisplay := - clocks,
                 myClockStopDisplay := - clocks + myStopDisplayOffset s2,
                 myClockAtLastUpdate := - clocks,
                 myClocksToEndOfScanLine := SCANLINE_CLOCKS,
                 myFramePointer := 0,
                 myFramePointerClocks := 0\<rparr>;
         s4 = (if myColorLossEnabled s3 then
                 s3\<lparr>myColor := colorLoss (myScanlineCountForLastFrame s3 mod 2 = 1) (myColor s3)\<rparr>
               else s3)
     in s4\<lparr>myStartScanline := 0\<rparr>)"

text \<open>\<open>endFrame\<close>; the recomputation of the float \<open>myFramerate\<close> under
  \<open>myAutoFrameEnabled\<close> is outside the embedding, the adjustment of
  \<open>myStopDisplayOffset\<close> next to it is not.\<close>

definition endFrame :: "tia \<Rightarrow> tia" where
  "endFrame s =
    (let currentlines = scanlines s in
     if currentlines \<le> myStartScanline s then startFrame s
     else
       let previousCount = myScanlineCountForLastFrame s;
           mx = myMaximumNumberOfScanlines s;
           s1 = s\<lparr>myScanlineCountForLastFrame := currentlines\<rparr>;
           s2 = (if myScanlineCountForLastFrame s1 > mx + 1 then
                   (let s' = s1\<lparr>myScanlineCountForLastFrame := mx\<rparr>
                    in if previousCount < mx then
                         s'\<lparr>myCurrentFrameBuffer := memset (myCurrentFrameBuffer s') 0 0 BUFFER_SIZE,
                            myPreviousFrameBuffer := memset (myPreviousFrameBuffer s') 0 1 BUFFER_SIZE\<rparr>
                       else s')
                 else if myScanlineCountForLastFrame s1 < previousCount
                         \<and> myScanlineCountForLastFrame s1 < BUFFER_LINES
                         \<and> previousCount < BUFFER_LINES then
                   (let off = myScanlineCountForLastFrame s1 * SCANLINE_PIXEL;
                        stride = (previousCount - myScanlineCountForLastFrame s1) * SCANLINE_PIXEL
                    in s1\<lparr>myCurrentFrameBuffer := memset (myCurrentFrameBuffer s1) off 0 stride,
                          myPreviousFrameBuffer := memset (myPreviousFrameBuffer s1) off 1 stride\<rparr>)
                 else s1);
           s3 = s2\<lparr>myFrameCounter := myFrameCounter s2 + 1\<rparr>;
           s4 = (if myScanlineCountForLastFrame s3 \<ge> 287 then
                   s3\<lparr>myPALFrameCounter := myPALFrameCounter s3 + 1\<rparr>
                 else s3)
       in if myAutoFrameEnabled s4 then
            (let off = SCANLINE_CLOCKS * myScanlineCountForLastFrame s4
             in if off > myStopDisplayOffset s4 \<and> off < SCANLINE_CLOCKS * BUFFER_LINES then
                  s4\<lparr>myStopDisplayOffset := off\<rparr>
                else s4)
          else s4)"

subsection \<open>The scanline renderer\<close>

definition updateMasks :: "tia \<Rightarrow> tia" where
  "updateMasks s = s\<lparr>myPlayer0 := player_updateMask (myPlayer0 s),
     myPlayer1 := player_updateMask (myPlayer1 s),
     myMissile0 := missile_updateMask (myMissile0 s),
     myMissile1 := missile_updateMask (myMissile1 s),
     myBall := ball_updateMask (myBall s)\<rparr>"

text \<open>The byte of enabled objects at one horizontal position, in the order the source
  ORs the six \<open>getEnabled\<close> results together.\<close>

definition enabledAt :: "tables \<Rightarrow> tia \<Rightarrow> int \<Rightarrow> 8 word" where
  "enabledAt tb s hpos =
    (let d = myDisabledObjects s
     in getEnabledPF tb d (myPlayfield s) hpos
        OR getEnabledBL tb d (myBall s) hpos
        OR getEnabledP1 tb d (myPlayer1 s) hpos
        OR getEnabledM1 tb d (myMissile1 s) hpos
        OR getEnabledP0 tb d (myPlayer0 s) hpos
        OR getEnabledM0 tb d (myMissile0 s) hpos)"

text \<open>The body of the pixel loop: the collision latch, then the pixel.\<close>

definition renderPixel :: "tables \<Rightarrow> int \<Rightarrow> tia \<Rightarrow> tia" where
  "renderPixel tb hpos s =
    (let enabled = enabledAt tb s hpos;
         colour = myPriorityEncoder s (if hpos < SCANLINE_PIXEL div 2 then 0 else 1)
                    (enabled OR myPriorityAndScore (myPlayfield s))
     in s\<lparr>myCollision := myCollision s OR CollisionMask tb enabled,
          myCurrentFrameBuffer :=
            (myCurrentFrameBuffer s)(myFramePointer s := ucast (myColorPtr s colour))\<rparr>)"

text \<open>\<open>for(; myFramePointer < ending; ++myFramePointer, ++hpos)\<close>; the first argument
  is the number of pixels to go.\<close>

fun renderPixels :: "tables \<Rightarrow> nat \<Rightarrow> int \<Rightarrow> tia \<Rightarrow> tia" where
  "renderPixels tb 0 hpos s = s"
| "renderPixels tb (Suc n) hpos s =
     renderPixels tb n (hpos + 1)
       ((renderPixel tb hpos s)\<lparr>myFramePointer := myFramePointer s + 1\<rparr>)"

text \<open>What happens between two scanlines (\<open>line != startLine\<close>).\<close>

definition interLine :: "tia \<Rightarrow> tia" where
  "interLine s =
    (let cur = myCurrentHMOVEPos s;
         s1 = s\<lparr>myPreviousHMOVEPos := NO_HMOVE,
                myPlayer0 := handlePendingMotions cur (myPlayer0 s),
                myPlayer1 := handlePendingMotions cur (myPlayer1 s),
                myMissile0 := handlePendingMotions cur (myMissile0 s),
                myMissile1 := handlePendingMotions cur (myMissile1 s),
                myBall := handlePendingMotions cur (myBall s)\<rparr>
     in if cur \<noteq> NO_HMOVE then
          s1\<lparr>myPreviousHMOVEPos := (if cur \<ge> 97 \<and> cur < 157 then cur else NO_HMOVE),
             myCurrentHMOVEPos := NO_HMOVE\<rparr>
        else s1)"

text \<open>One iteration of the loop over the scanlines, block by block. First the number
  of clocks to update is computed and the two clock members are moved on; the result is
  \<open>clocksToUpdate\<close> and the new state.\<close>

definition advanceClocks :: "int \<Rightarrow> tia \<Rightarrow> int \<times> tia" where
  "advanceClocks clock s =
    (if clock > myClockAtLastUpdate s + myClocksToEndOfScanLine s then
       (myClocksToEndOfScanLine s,
        s\<lparr>myClocksToEndOfScanLine := SCANLINE_CLOCKS,
          myClockAtLastUpdate := myClockAtLastUpdate s + myClocksToEndOfScanLine s\<rparr>)
     else
       (clock - myClockAtLastUpdate s,
        s\<lparr>myClocksToEndOfScanLine := myClocksToEndOfScanLine s - (clock - myClockAtLastUpdate s),
          myClockAtLastUpdate := clock\<rparr>))"

text \<open>Skipping the horizontal blank: the new \<open>clocksFromStartOfScanLine\<close> and
  \<open>clocksToUpdate\<close>.\<close>

definition skipHBlank :: "int \<Rightarrow> int \<Rightarrow> int \<times> int" where
  "skipHBlank clocksFromStartOfScanLine clocksToUpdate =
    (let startOfScanLine = HBLANK_CLOCKS in
     if clocksFromStartOfScanLine < startOfScanLine then
       (let tmp = (if startOfScanLine - clocksFromStartOfScanLine < clocksToUpdate
                   then startOfScanLine - clocksFromStartOfScanLine else clocksToUpdate)
        in (clocksFromStartOfScanLine + tmp, clocksToUpdate - tmp))
     else (clocksFromStartOfScanLine, clocksToUpdate))"

text \<open>"Update as much of the scanline as we can".\<close>

definition renderSpan :: "tables \<Rightarrow> int \<Rightarrow> int \<Rightarrow> tia \<Rightarrow> tia" where
  "renderSpan tb clocksFromStartOfScanLine clocksToUpdate s =
    (if clocksToUpdate \<noteq> 0 then
       (let ending = myFramePointer s + clocksToUpdate;
            s1 = s\<lparr>myFramePointerClocks := myFramePointerClocks s + clocksToUpdate\<rparr>;
            s2 = (if myVBLANK s1 AND 0x02 \<noteq> 0 then
                    s1\<lparr>myCurrentFrameBuffer :=
                         memset (myCurrentFrameBuffer s1) (myFramePointer s1) 0 clocksToUpdate\<rparr>
                  else
                    renderPixels tb (nat clocksToUpdate)
                      (clocksFromStartOfScanLine - HBLANK_CLOCKS) (updateMasks s1))
        in s2\<lparr>myFramePointer := ending\<rparr>)
     else s)"

text \<open>"Handle HMOVE blanks if they are enabled".\<close>

definition hmoveBlanks :: "int \<Rightarrow> int \<Rightarrow> int \<Rightarrow> tia \<Rightarrow> tia" where
  "hmoveBlanks oldFramePointer clocksFromStartOfScanLine clocksToUpdate s =
    (let startOfScanLine = HBLANK_CLOCKS in
     if myHMOVEBlankEnabled s \<and> startOfScanLine < HBLANK_CLOCKS + 8
          \<and> clocksFromStartOfScanLine < HBLANK_CLOCKS + 8 then
       (let blanks = (HBLANK_CLOCKS + 8) - clocksFromStartOfScanLine;
            s1 = s\<lparr>myCurrentFrameBuffer :=
                     memset (myCurrentFrameBuffer s) oldFramePointer
                       (ucast (myColorPtr s HBLANKColor)) blanks\<rparr>
        in if clocksToUpdate + clocksFromStartOfScanLine \<ge> HBLANK_CLOCKS + 8 then
             s1\<lparr>myHMOVEBlankEnabled := False\<rparr>
           else s1)
     else s)"

text \<open>"See if we're at the end of a scanline".\<close>

definition endOfScanline :: "tia \<Rightarrow> tia" where
  "endOfScanline s =
    (if myClocksToEndOfScanLine s = SCANLINE_CLOCKS then
       s\<lparr>myPlayer0 := (myPlayer0 s)\<lparr>mySuppress := 0\<rparr>,
         myPlayer1 := (myPlayer1 s)\<lparr>mySuppress := 0\<rparr>\<rparr>
     else s)"

text \<open>The body of the loop; \<open>clock\<close> is the (truncated) target clock, \<open>notFirst\<close> is
  \<open>line != startLine\<close>.\<close>

definition updateLine :: "tables \<Rightarrow> int \<Rightarrow> bool \<Rightarrow> tia \<Rightarrow> tia" where
  "updateLine tb clock notFirst s0 =
    (let s1 = (if notFirst then interLine s0 else s0);
         clocksFromStartOfScanLine0 = SCANLINE_CLOCKS - myClocksToEndOfScanLine s1;
         clocksToUpdate0 = fst (advanceClocks clock s1);
         s2 = snd (advanceClocks clock s1);
         clocksFromStartOfScanLine = fst (skipHBlank clocksFromStartOfScanLine0 clocksToUpdate0);
         clocksToUpdate = snd (skipHBlank clocksFromStartOfScanLine0 clocksToUpdate0);
         oldFramePointer = myFramePointer s2;
         s3 = renderSpan tb clocksFromStartOfScanLine clocksToUpdate s2;
         s4 = hmoveBlanks oldFramePointer clocksFromStartOfScanLine clocksToUpdate s3
     in endOfScanline s4)"

text \<open>\<open>for(uInt32 line = startLine; line <= endLine; ++line)\<close>: the body uses
  \<open>line\<close> only to tell the first iteration from the others, so the loop is a
  recursion on the number of iterations to go.\<close>

fun updateLines :: "tables \<Rightarrow> int \<Rightarrow> bool \<Rightarrow> nat \<Rightarrow> tia \<Rightarrow> tia" where
  "updateLines tb clock notFirst 0 s = s"
| "updateLines tb clock notFirst (Suc n) s =
     updateLines tb clock True n (updateLine tb clock notFirst s)"

text \<open>
  \<open>updateFrame(clock)\<close>. The two line numbers are unsigned: a negative quotient
  wraps. The loop runs \<open>endLine - startLine + 1\<close> times when
  \<open>startLine \<le> endLine\<close> and not at all otherwise, except that with
  \<open>endLine = 0xFFFFFFFF\<close> its condition \<open>line <= endLine\<close> never fails: then
  \<open>updateFrame\<close> does not return, which is the value \<open>None\<close>.
\<close>

definition updateFrame :: "tables \<Rightarrow> int \<Rightarrow> tia \<Rightarrow> tia option" where
  "updateFrame tb clock0 s =
    (if clock0 < myClockStartDisplay s
        \<or> myClockAtLastUpdate s \<ge> myClockStopDisplay s
        \<or> myClockAtLastUpdate s \<ge> clock0 then Some s
     else
       let clock = (if clock0 > myClockStopDisplay s then myClockStopDisplay s else clock0);
           startLine = uint32 (cdiv (myClockAtLastUpdate s - myClockWhenFrameStarted s) SCANLINE_CLOCKS);
           endLine = uint32 (cdiv (clock - myClockWhenFrameStarted s) SCANLINE_CLOCKS)
       in if endLine = 4294967295 then None
          else if startLine \<le> endLine then
            Some (updateLines tb clock False (nat (endLine - startLine + 1)) s)
          else Some s)"

subsection \<open>The register interface: peek\<close>

text \<open>Modelled from the spec: the read registers, in the order section 6 and the switch
  of \<open>peek\<close> name them (six collision registers... and six input ports), decoded
  from the low four address bits.\<close>

datatype rreg =
    CXM0P | CXM1P | CXP0FB | CXP1FB | CXM0FB | CXM1FB | CXBLPF | CXPPMM
  | INPT0 | INPT1 | INPT2 | INPT3 | INPT4 | INPT5 | NoReadReg

definition rreg_order :: "rreg list" where
  "rreg_order = [CXM0P, CXM1P, CXP0FB, CXP1FB, CXM0FB, CXM1FB, CXBLPF, CXPPMM,
                 INPT0, INPT1, INPT2, INPT3, INPT4, INPT5]"

definition decode_rreg :: "16 word \<Rightarrow> rreg" where
  "decode_rreg addr =
    (let a = unat (addr AND 0x000f)
     in if a < length rreg_order then rreg_order ! a else NoReadReg)"

text \<open>
  What a peek reads from outside the TIA: the data bus (undriven and driven), the
  resistances of the four analog pins, the two digital pins Six, the two resistance
  constants of Controller, and, for each resistance, whether more cycles have passed
  since the dump was disabled than the charge needs (a floating-point computation in
  \<open>dumpedInputPort\<close>, outside the embedding).
\<close>

record inputs =
  dataBusState :: "8 word"
  dataBusStateDriven :: "8 word"
  leftNine :: int
  leftFive :: int
  rightNine :: int
  rightFive :: int
  leftSix :: bool
  rightSix :: bool
  minimumResistance :: int
  maximumResistance :: int
  dumpCharged :: "int \<Rightarrow> bool"

definition dumpedInputPort :: "inputs \<Rightarrow> int \<Rightarrow> tia \<Rightarrow> 8 word" where
  "dumpedInputPort inp resistance s =
    (if resistance = minimumResistance inp then 0x80
     else if resistance = maximumResistance inp \<or> myDumpEnabled s then 0x00
     else if dumpCharged inp resistance then 0x80 else 0x00)"

definition cxbits :: "16 word \<Rightarrow> 16 word \<Rightarrow> 16 word \<Rightarrow> 8 word" where
  "cxbits collision hi lo =
     (if collision AND hi \<noteq> 0 then 0x80 else 0x00) OR (if collision AND lo \<noteq> 0 then 0x40 else 0x00)"

text \<open>The part of \<open>peek\<close> after the frame has been updated.\<close>

definition peekRegister :: "tables \<Rightarrow> inputs \<Rightarrow> rreg \<Rightarrow> tia \<Rightarrow> 8 word \<times> tia" where
  "peekRegister tb inp addr s =
    (let value0 = 0x3F AND (if \<not> myTIAPinsDriven s then dataBusState inp
                            else dataBusStateDriven inp);
         collision = myCollision s AND ucast (myCollisionEnabledMask s)
     in case addr of
          CXM0P \<Rightarrow> (value0 OR cxbits collision (Cx_M0P1 tb) (Cx_M0P0 tb), s)
        | CXM1P \<Rightarrow> (value0 OR cxbits collision (Cx_M1P0 tb) (Cx_M1P1 tb), s)
        | CXP0FB \<Rightarrow> (value0 OR cxbits collision (Cx_P0PF tb) (Cx_P0BL tb), s)
        | CXP1FB \<Rightarrow> (value0 OR cxbits collision (Cx_P1PF tb) (Cx_P1BL tb), s)
        | CXM0FB \<Rightarrow> (value0 OR cxbits collision (Cx_M0PF tb) (Cx_M0BL tb), s)
        | CXM1FB \<Rightarrow> (value0 OR cxbits collision (Cx_M1PF tb) (Cx_M1BL tb), s)
        | CXBLPF \<Rightarrow> ((value0 AND 0x7F) OR (if collision AND Cx_BLPF tb \<noteq> 0 then 0x80 else 0x00), s)
        | CXPPMM \<Rightarrow> (value0 OR cxbits collision (Cx_P0P1 tb) (Cx_M0M1 tb), s)
        | INPT0 \<Rightarrow> ((value0 AND 0x7F) OR dumpedInputPort inp (leftNine inp) s, s)
        | INPT1 \<Rightarrow> ((value0 AND 0x7F) OR dumpedInputPort inp (leftFive inp) s, s)
        | INPT2 \<Rightarrow> ((value0 AND 0x7F) OR dumpedInputPort inp (rightNine inp) s, s)
        | INPT3 \<Rightarrow> ((value0 AND 0x7F) OR dumpedInputPort inp (rightFive inp) s, s)
        | INPT4 \<Rightarrow>
            (let button = (if leftSix inp then 0x80 else 0x00);
                 latch = (if myVBLANK s AND 0x40 \<noteq> 0 then myINPT4 s AND button else button)
             in ((value0 AND 0x7F) OR latch, s\<lparr>myINPT4 := latch\<rparr>))
        | INPT5 \<Rightarrow>
            (let button = (if rightSix inp then 0x80 else 0x00);
                 latch = (if myVBLANK s AND 0x40 \<noteq> 0 then myINPT5 s AND button else button)
             in ((value0 AND 0x7F) OR latch, s\<lparr>myINPT5 := latch\<rparr>))
        | NoReadReg \<Rightarrow> (value0, s))"

definition peek :: "tables \<Rightarrow> inputs \<Rightarrow> 16 word \<Rightarrow> tia \<Rightarrow> (8 word \<times> tia) option" where
  "peek tb inp addr s =
    (case updateFrame tb (cycles (mySystem s) * PIXEL_CLOCKS) s of
       None \<Rightarrow> None
     | Some s1 \<Rightarrow> Some (peekRegister tb inp (decode_rreg addr) s1))"

subsection \<open>The register interface: poke\<close>

definition stopProcessor :: "tia \<Rightarrow> tia" where
  "stopProcessor s = s\<lparr>mySystem := (mySystem s)\<lparr>stopRequested := True\<rparr>\<rparr>"

definition waitHorizontalSync :: "tia \<Rightarrow> tia" where
  "waitHorizontalSync s =
    (let cyclesToEndOfLine = SCANLINE_CYCLES -
           uint32 (cycles (mySystem s) - cdiv (myClockWhenFrameStarted s) PIXEL_CLOCKS)
             mod SCANLINE_CYCLES
     in if cyclesToEndOfLine < SCANLINE_CYCLES then
          s\<lparr>mySystem := (mySystem s)\<lparr>cycles := cycles (mySystem s) + cyclesToEndOfLine\<rparr>\<rparr>
        else s)"

definition colourOf :: "8 word \<Rightarrow> tia \<Rightarrow> 32 word" where
  "colourOf v s =
    (let c0 = (ucast (v AND 0xfe) :: 32 word);
         color = (if myColorLossEnabled s \<and> myScanlineCountForLastFrame s mod 2 = 1
                  then c0 OR 0x01 else c0)
     in push_bit 8 (push_bit 8 (push_bit 8 color OR color) OR color) OR color)"

definition updP0 :: "tables \<Rightarrow> wreg \<Rightarrow> 8 word \<Rightarrow> tia \<Rightarrow> tia" where
  "updP0 tb addr v s = s\<lparr>myPlayer0 := player_handleRegisterUpdate (GRPReflect tb) False
     (cycles (mySystem s)) (myClockWhenFrameStarted s) (myCurrentHMOVEPos s) addr v (myPlayer0 s)\<rparr>"

definition updP1 :: "tables \<Rightarrow> wreg \<Rightarrow> 8 word \<Rightarrow> tia \<Rightarrow> tia" where
  "updP1 tb addr v s = s\<lparr>myPlayer1 := player_handleRegisterUpdate (GRPReflect tb) True
     (cycles (mySystem s)) (myClockWhenFrameStarted s) (myCurrentHMOVEPos s) addr v (myPlayer1 s)\<rparr>"

definition updM0 :: "wreg \<Rightarrow> 8 word \<Rightarrow> tia \<Rightarrow> tia" where
  "updM0 addr v s = s\<lparr>myMissile0 := missile_handleRegisterUpdate False
     (cycles (mySystem s)) (myClockWhenFrameStarted s) (myCurrentHMOVEPos s)
     (myPreviousHMOVEPos s) (myPlayer0 s) addr v (myMissile0 s)\<rparr>"

definition updM1 :: "wreg \<Rightarrow> 8 word \<Rightarrow> tia \<Rightarrow> tia" where
  "updM1 addr v s = s\<lparr>myMissile1 := missile_handleRegisterUpdate True
     (cycles (mySystem s)) (myClockWhenFrameStarted s) (myCurrentHMOVEPos s)
     (myPreviousHMOVEPos s) (myPlayer1 s) addr v (myMissile1 s)\<rparr>"

definition updBL :: "wreg \<Rightarrow> 8 word \<Rightarrow> tia \<Rightarrow> tia" where
  "updBL addr v s = s\<lparr>myBall := ball_handleRegisterUpdate
     (cycles (mySystem s)) (myClockWhenFrameStarted s) (myCurrentHMOVEPos s)
     (myPreviousHMOVEPos s) addr v (myBall s)\<rparr>"

definition updPF :: "wreg \<Rightarrow> 8 word \<Rightarrow> tia \<Rightarrow> tia" where
  "updPF addr v s = s\<lparr>myPlayfield := playfield_handleRegisterUpdate addr v (myPlayfield s)\<rparr>"

text \<open>The cases RESP0 and RESP1 of \<open>poke\<close>, which reset a player in line; the flag
  tells which player. First the new position, computed with the formulas of
  \<open>getActiveHPos\<close> and \<open>getPreviousHPos\<close> for players, which the source writes out.\<close>

definition respNewX :: "tia \<Rightarrow> player \<Rightarrow> int \<Rightarrow> int" where
  "respNewX s pl hpos =
    (if myCurrentHMOVEPos s \<noteq> NO_HMOVE then
       applyActiveHMOVEMotion (myCurrentHMOVEPos s) (myMotionClock pl) hpos
         (int16 (getActiveHPos PlayerKind hpos))
     else
       applyPreviousHMOVEMotion (myPreviousHMOVEPos s) (myHM pl) hpos
         (int16 (getPreviousHPos PlayerKind hpos)))"

definition setPlayer :: "bool \<Rightarrow> (player \<Rightarrow> player) \<Rightarrow> tia \<Rightarrow> tia" where
  "setPlayer second f t =
    (if second then t\<lparr>myPlayer1 := f (myPlayer1 t)\<rparr> else t\<lparr>myPlayer0 := f (myPlayer0 t)\<rparr>)"

text \<open>The switch on \<open>PxPosResetWhen[myNUSIZ & 7][myPos][newx]\<close>, "under what condition
  the player is being reset".\<close>

definition respSuppress :: "tables \<Rightarrow> bool \<Rightarrow> int \<Rightarrow> player \<Rightarrow> int \<Rightarrow> tia \<Rightarrow> tia option" where
  "respSuppress tb second clock pl newx s =
    (let delay = int16 (PxPosResetWhen tb (uint (player.myNUSIZ pl AND 7)) (myPos pl) newx)
     in if delay = 1 then
          (case updateFrame tb (clock + 11) s of
             None \<Rightarrow> None
           | Some t \<Rightarrow> Some (setPlayer second (\<lambda>p. p\<lparr>mySuppress := 1\<rparr>) t))
        else if delay = 0 then Some (setPlayer second (\<lambda>p. p\<lparr>mySuppress := 1\<rparr>) s)
        else if delay = - 1 then Some (setPlayer second (\<lambda>p. p\<lparr>mySuppress := 0\<rparr>) s)
        else Some s)"

definition pokeRESP :: "tables \<Rightarrow> bool \<Rightarrow> int \<Rightarrow> tia \<Rightarrow> tia option" where
  "pokeRESP tb second clock s =
    (let pl = (if second then myPlayer1 s else myPlayer0 s);
         hpos = hpos_of clock (myClockWhenFrameStarted s);
         newx = respNewX s pl hpos
     in if myPos pl \<noteq> newx then
          (case respSuppress tb second clock pl newx s of
             None \<Rightarrow> None
           | Some t \<Rightarrow> Some (setPlayer second (\<lambda>p. p\<lparr>myPos := newx\<rparr>) t))
        else Some s)"

text \<open>The switch of \<open>poke\<close>; \<open>clock\<close> is the colour clock read at the head of
  \<open>poke\<close>. Writes to the sound device are outside the embedding.\<close>

definition pokeRegister :: "tables \<Rightarrow> wreg \<Rightarrow> 8 word \<Rightarrow> int \<Rightarrow> tia \<Rightarrow> tia option" where
  "pokeRegister tb addr v clock s =
    (case addr of
       VSYNC \<Rightarrow>
         (let s1 = s\<lparr>myVSYNC := v\<rparr>
          in if myVSYNC s1 AND 0x02 \<noteq> 0 then
               Some (s1\<lparr>myVSYNCFinishClock := clock + SCANLINE_CLOCKS\<rparr>)
             else if \<not> (myVSYNC s1 AND 0x02 \<noteq> 0) \<and> clock \<ge> myVSYNCFinishClock s1 then
               Some ((stopProcessor (s1\<lparr>myVSYNCFinishClock := NO_HMOVE\<rparr>))
                       \<lparr>myPartialFrameFlag := False\<rparr>)
             else Some s1)
     | VBLANK \<Rightarrow>
         (let s1 = (if \<not> (myVBLANK s AND 0x80 \<noteq> 0) \<and> v AND 0x80 \<noteq> 0 then
                      s\<lparr>myDumpEnabled := True\<rparr>
                    else if myVBLANK s AND 0x80 \<noteq> 0 \<and> \<not> (v AND 0x80 \<noteq> 0) then
                      s\<lparr>myDumpEnabled := False, myDumpDisabledCycle := cycles (mySystem s)\<rparr>
                    else s);
              s2 = (if \<not> (myVBLANK s1 AND 0x40 \<noteq> 0) then s1\<lparr>myINPT4 := 0x80, myINPT5 := 0x80\<rparr>
                    else s1);
              s3 = (if myStartScanline s2 = 0 \<and> \<not> (v AND 0x10 \<noteq> 0) then
                      s2\<lparr>myStartScanline := scanlines s2\<rparr>
                    else s2)
          in Some (s3\<lparr>myVBLANK := v\<rparr>))
     | WSYNC \<Rightarrow> Some (if lastAccessWasRead (mySystem s) then waitHorizontalSync s else s)
     | RSYNC \<Rightarrow> Some s
     | NUSIZ0 \<Rightarrow>
         (case updateFrame tb (clock + 8) s of
            None \<Rightarrow> None
          | Some s1 \<Rightarrow>
              (let s2 = updM0 addr v (updP0 tb addr v s1)
               in Some (s2\<lparr>myPlayer0 := (myPlayer0 s2)\<lparr>mySuppress := 0\<rparr>\<rparr>)))
     | NUSIZ1 \<Rightarrow>
         (case updateFrame tb (clock + 8) s of
            None \<Rightarrow> None
          | Some s1 \<Rightarrow> Some (updM1 addr v (updP1 tb addr v s1)))
     | COLUP0 \<Rightarrow> Some (s\<lparr>myColor := (myColor s)(P0Color := colourOf v s, M0Color := colourOf v s)\<rparr>)
     | COLUP1 \<Rightarrow> Some (s\<lparr>myColor := (myColor s)(P1Color := colourOf v s, M1Color := colourOf v s)\<rparr>)
     | COLUPF \<Rightarrow> Some (s\<lparr>myColor := (myColor s)(PFColor := colourOf v s, BLColor := colourOf v s)\<rparr>)
     | COLUBK \<Rightarrow> Some (s\<lparr>myColor := (myColor s)(BKColor := colourOf v s)\<rparr>)
     | CTRLPF \<Rightarrow> Some (updBL addr v (updPF addr v s))
     | REFP0 \<Rightarrow> Some (updP0 tb addr v s)
     | REFP1 \<Rightarrow> Some (updP1 tb addr v s)
     | PF0 \<Rightarrow> Some (updPF addr v s)
     | PF1 \<Rightarrow> Some (updPF addr v s)
     | PF2 \<Rightarrow> Some (updPF addr v s)
     | RESP0 \<Rightarrow> pokeRESP tb False clock s
     | RESP1 \<Rightarrow> pokeRESP tb True clock s
     | RESM0 \<Rightarrow> Some (updM0 addr v s)
     | RESM1 \<Rightarrow> Some (updM1 addr v s)
     | RESBL \<Rightarrow> Some (updBL addr v s)
     | GRP0 \<Rightarrow> Some (updP1 tb addr v (updP0 tb addr v s))
     | GRP1 \<Rightarrow> Some (updBL addr v (updP0 tb addr v (updP1 tb addr v s)))
     | ENAM0 \<Rightarrow> Some (updM0 addr v s)
     | ENAM1 \<Rightarrow> Some (updM1 addr v s)
     | ENABL \<Rightarrow> Some (updBL addr v s)
     | HMP0 \<Rightarrow> Some (updP0 tb addr v s)
     | HMP1 \<Rightarrow> Some (updP1 tb addr v s)
     | HMM0 \<Rightarrow> Some (updM0 addr v s)
     | HMM1 \<Rightarrow> Some (updM1 addr v s)
     | HMBL \<Rightarrow> Some (updBL addr v s)
     | VDELP0 \<Rightarrow> Some (updP0 tb addr v s)
     | VDELP1 \<Rightarrow> Some (updP1 tb addr v s)
     | VDELBL \<Rightarrow> Some (updBL addr v s)
     | RESMP0 \<Rightarrow> Some (updM0 addr v s)
     | RESMP1 \<Rightarrow> Some (updM1 addr v s)
     | HMOVE \<Rightarrow>
         (let hpos = hpos_of clock (myClockWhenFrameStarted s);
              s1 = s\<lparr>myCurrentHMOVEPos := hpos,
                     myHMOVEBlankEnabled :=
                       (if myAllowHMOVEBlanks s then
                          HMOVEBlankEnableCycles tb
                            (cdiv (crem (clock - myClockWhenFrameStarted s) SCANLINE_CLOCKS) PIXEL_CLOCKS)
                        else False)\<rparr>;
              s2 = updBL addr 0 (updM1 addr 0 (updM0 addr 0 (updP1 tb addr 0 (updP0 tb addr 0 s1))))
          in if hpos \<ge> -5 \<and> hpos < 97 then
               Some (s2\<lparr>myHMOVEBlankEnabled := False, myCurrentHMOVEPos := NO_HMOVE\<rparr>)
             else Some s2)
     | HMCLR \<Rightarrow>
         Some (updBL addr 0 (updM1 addr 0 (updM0 addr 0 (updP1 tb addr 0 (updP0 tb addr 0 s)))))
     | CXCLR \<Rightarrow> Some (s\<lparr>myCollision := 0\<rparr>)
     | AUDC0 \<Rightarrow> Some (s\<lparr>myAUDC0 := v AND 0x0f\<rparr>)
     | AUDC1 \<Rightarrow> Some (s\<lparr>myAUDC1 := v AND 0x0f\<rparr>)
     | AUDF0 \<Rightarrow> Some (s\<lparr>myAUDF0 := v AND 0x1f\<rparr>)
     | AUDF1 \<Rightarrow> Some (s\<lparr>myAUDF1 := v AND 0x1f\<rparr>)
     | AUDV0 \<Rightarrow> Some (s\<lparr>myAUDV0 := v AND 0x0f\<rparr>)
     | AUDV1 \<Rightarrow> Some (s\<lparr>myAUDV1 := v AND 0x0f\<rparr>)
     | NoWriteReg \<Rightarrow> Some s)"

text \<open>The delay of a write to PF0, PF1 or PF2: \<open>d[(x / 3) & 3]\<close> with
  \<open>d = {4, 5, 2, 3}\<close>.\<close>

definition pfDelay :: "int \<Rightarrow> int" where
  "pfDelay x = [4, 5, 2, 3] ! nat ((cdiv x 3) AND 3)"

text \<open>The frame is ended when no VSYNC has come in time.\<close>

definition endLateFrame :: "int \<Rightarrow> tia \<Rightarrow> tia" where
  "endLateFrame clock s =
    (if cdiv (clock - myClockWhenFrameStarted s) SCANLINE_CLOCKS \<ge> myMaximumNumberOfScanlines s
     then (stopProcessor s)\<lparr>myPartialFrameFlag := False\<rparr>
     else s)"

definition pokeReg :: "tables \<Rightarrow> wreg \<Rightarrow> 8 word \<Rightarrow> tia \<Rightarrow> tia option" where
  "pokeReg tb addr v s =
    (let clock = cycles (mySystem s) * PIXEL_CLOCKS;
         delay0 = int16 (PokeDelay tb addr);
         delay = (if delay0 = -1 then
                    pfDelay (crem (clock - myClockWhenFrameStarted s) SCANLINE_CLOCKS)
                  else delay0)
     in case updateFrame tb (clock + delay) s of
          None \<Rightarrow> None
        | Some s1 \<Rightarrow> pokeRegister tb addr v clock (endLateFrame clock s1))"

definition poke :: "tables \<Rightarrow> 16 word \<Rightarrow> 8 word \<Rightarrow> tia \<Rightarrow> tia option" where
  "poke tb addr v s = pokeReg tb (decode_wreg addr) v s"

subsection \<open>PAL or NTSC\<close>

text \<open>
  \<open>isPAL()\<close> is \<open>float(myPALFrameCounter) / myFrameCounter >= (25.0/60.0)\<close>: the two
  counters are converted to \<open>float\<close>, the quotient is a \<open>float\<close>, and it is compared,
  as a \<open>double\<close>, with the quotient of the two \<open>double\<close> constants. The arithmetic is
  that of IEEE 754, binary32 for \<open>float\<close> and binary64 for \<open>double\<close>, rounding to
  nearest, ties to even. Only numbers that are not negative occur: \<open>Finite m e\<close> stands
  for \<open>m * 2 ^ e\<close>, and the numbers that occur here are far from the overflow and
  underflow thresholds of both formats, so the exponent is not bounded. A division by
  zero is not guarded by the source; its result is infinite, and not a number when
  zero is divided by zero. Every comparison with what is not a number is false.

  \<open>roundEven a b\<close> is the integer nearest to \<open>a / b\<close>, \<open>ilog2 a b\<close> is the integral
  part of the binary logarithm of \<open>a / b\<close>, and \<open>fround p a b\<close> is \<open>a / b\<close> rounded to
  a mantissa of \<open>p\<close> bits (for \<open>a\<close> not negative and \<open>b\<close> positive).
\<close>

datatype ieee = Finite int int | Infinity | NaN

definition roundEven :: "int \<Rightarrow> int \<Rightarrow> int" where
  "roundEven a b =
    (let q = a div b; r = a mod b
     in if 2 * r < b \<or> (2 * r = b \<and> even q) then q else q + 1)"

definition ilog2 :: "int \<Rightarrow> int \<Rightarrow> int" where
  "ilog2 a b =
    (let d = bitlen a - bitlen b
     in if b * 2 ^ nat d \<le> a * 2 ^ nat (- d) then d else d - 1)"

definition fround :: "int \<Rightarrow> int \<Rightarrow> int \<Rightarrow> ieee" where
  "fround p a b =
    (if a = 0 then Finite 0 0
     else let e = ilog2 a b - (p - 1)
          in Finite (roundEven (a * 2 ^ nat (- e)) (b * 2 ^ nat e)) e)"

text \<open>Division with the result rounded to \<open>p\<close> bits, and the comparison \<open>>=\<close>.\<close>

definition fdiv :: "int \<Rightarrow> ieee \<Rightarrow> ieee \<Rightarrow> ieee" where
  "fdiv p x y =
    (case x of
       NaN \<Rightarrow> NaN
     | Infinity \<Rightarrow> (case y of Finite n f \<Rightarrow> Infinity | _ \<Rightarrow> NaN)
     | Finite m e \<Rightarrow>
         (case y of
            NaN \<Rightarrow> NaN
          | Infinity \<Rightarrow> Finite 0 0
          | Finite n f \<Rightarrow>
              if n = 0 then (if m = 0 then NaN else Infinity)
              else fround p (m * 2 ^ nat (e - f)) (n * 2 ^ nat (f - e))))"

definition fge :: "ieee \<Rightarrow> ieee \<Rightarrow> bool" where
  "fge x y =
    (case x of
       NaN \<Rightarrow> False
     | Infinity \<Rightarrow> (case y of NaN \<Rightarrow> False | _ \<Rightarrow> True)
     | Finite m e \<Rightarrow>
         (case y of
            Finite n f \<Rightarrow> n * 2 ^ nat (f - e) \<le> m * 2 ^ nat (e - f)
          | _ \<Rightarrow> False))"

text \<open>The conversions of an unsigned 32-bit integer to \<open>float\<close> and of a decimal
  constant with an integral value to \<open>double\<close>.\<close>

definition toFloat :: "32 word \<Rightarrow> ieee" where
  "toFloat w = fround 24 (uint w) 1"

definition toDouble :: "int \<Rightarrow> ieee" where
  "toDouble n = fround 53 n 1"

text \<open>The quotient \<open>float(myPALFrameCounter) / myFrameCounter\<close>, and \<open>isPAL()\<close>.\<close>

definition palRatio :: "tia \<Rightarrow> ieee" where
  "palRatio s = fdiv 24 (toFloat (myPALFrameCounter s)) (toFloat (myFrameCounter s))"

definition isPAL :: "tia \<Rightarrow> bool" where
  "isPAL s = fge (palRatio s) (fdiv 53 (toDouble 25) (toDouble 60))"

subsection \<open>State serialization\<close>


type_synonym bytes = "8 word list"

definition encInt :: "32 word \<Rightarrow> bytes" where
  "encInt w = [ucast w, ucast (drop_bit 8 w), ucast (drop_bit 16 w), ucast (drop_bit 24 w)]"





text \<open>The reads: the value read and the rest of the stream, \<open>None\<close> when the read
  throws.\<close>

definition getBytes :: "nat \<Rightarrow> bytes \<Rightarrow> (bytes \<times> bytes) option" where
  "getBytes n st = (if length st < n then None else Some (take n st, drop n st))"

































subsection \<open>Example states\<close>

text \<open>A moveable object in the middle of an HMOVE that was strobed at \<open>hpos = -20\<close>:
  its HM register is 0 and five of its motion clocks are still to come.\<close>

definition exHM :: moveable where
  "exHM = \<lparr>isEnabled = True, myHM = 0, myVDEL = False, myPos = 50, myMotionClock = 5,
            myStart = 0, myHMmmr = False, myMask = MxMask 0 0 0 0\<rparr>"

text \<open>
  An instance of the parameters, for running examples: the object and collision bits
  are distinct single bits, every write takes effect without delay except those to
  PF0, PF1 and PF2, the collision mask of a byte has the bit of a pair when the byte has
  the bits of both objects, and an object that is enabled (and not disabled in
  \<open>myDisabledObjects\<close>) covers the whole scanline.
\<close>

definition exCollisionMask :: "8 word \<Rightarrow> 16 word" where
  "exCollisionMask e =
    (let has = (\<lambda>b. e AND b \<noteq> 0);
         P0 = has 0x01; M0 = has 0x02; P1 = has 0x04; M1 = has 0x08; BL = has 0x10; PF = has 0x20
     in (if M0 \<and> P1 then 0x0001 else 0) OR (if M0 \<and> P0 then 0x0002 else 0)
        OR (if M1 \<and> P0 then 0x0004 else 0) OR (if M1 \<and> P1 then 0x0008 else 0)
        OR (if P0 \<and> PF then 0x0010 else 0) OR (if P0 \<and> BL then 0x0020 else 0)
        OR (if P1 \<and> PF then 0x0040 else 0) OR (if P1 \<and> BL then 0x0080 else 0)
        OR (if M0 \<and> PF then 0x0100 else 0) OR (if M0 \<and> BL then 0x0200 else 0)
        OR (if M1 \<and> PF then 0x0400 else 0) OR (if M1 \<and> BL then 0x0800 else 0)
        OR (if BL \<and> PF then 0x1000 else 0) OR (if P0 \<and> P1 then 0x2000 else 0)
        OR (if M0 \<and> M1 then 0x4000 else 0))"

definition exTables :: tables where
  "exTables = \<lparr>P0Bit = 0x01, M0Bit = 0x02, P1Bit = 0x04, M1Bit = 0x08, BLBit = 0x10,
     PFBit = 0x20, ScoreBit = 0x40, PriorityBit = 0x80,
     Cx_M0P1 = 0x0001, Cx_M0P0 = 0x0002, Cx_M1P0 = 0x0004, Cx_M1P1 = 0x0008,
     Cx_P0PF = 0x0010, Cx_P0BL = 0x0020, Cx_P1PF = 0x0040, Cx_P1BL = 0x0080,
     Cx_M0PF = 0x0100, Cx_M0BL = 0x0200, Cx_M1PF = 0x0400, Cx_M1BL = 0x0800,
     Cx_BLPF = 0x1000, Cx_P0P1 = 0x2000, Cx_M0M1 = 0x4000,
     PokeDelay = (\<lambda>r. if r = PF0 \<or> r = PF1 \<or> r = PF2 then -1 else 0),
     CollisionMask = exCollisionMask,
     HMOVEBlankEnableCycles = (\<lambda>c. False),
     PxPosResetWhen = (\<lambda>n p x. 0),
     GRPReflect = (\<lambda>g. g),
     getEnabledPF = (\<lambda>d ob h. if isEnabled ob \<and> d AND 0x20 \<noteq> 0 then 0x20 else 0),
     getEnabledBL = (\<lambda>d ob h. if isEnabled ob \<and> d AND 0x10 \<noteq> 0 then 0x10 else 0),
     getEnabledP0 = (\<lambda>d ob h. if isEnabled ob \<and> d AND 0x01 \<noteq> 0 then 0x01 else 0),
     getEnabledP1 = (\<lambda>d ob h. if isEnabled ob \<and> d AND 0x04 \<noteq> 0 then 0x04 else 0),
     getEnabledM0 = (\<lambda>d ob h. if isEnabled ob \<and> d AND 0x02 \<noteq> 0 then 0x02 else 0),
     getEnabledM1 = (\<lambda>d ob h. if isEnabled ob \<and> d AND 0x08 \<noteq> 0 then 0x08 else 0)\<rparr>"

definition exConfig :: config where
  "exConfig = \<lparr>tiadriven = False, framerate = 60, colorloss = False, framerateAbove55 = True\<rparr>"

definition exInputs :: inputs where
  "exInputs = \<lparr>dataBusState = 0, dataBusStateDriven = 0, leftNine = 0, leftFive = 0,
     rightNine = 0, rightFive = 0, leftSix = True, rightSix = True,
     minimumResistance = 0, maximumResistance = 1, dumpCharged = (\<lambda>r. False)\<rparr>"

definition exPlayer :: player where
  "exPlayer = \<lparr>isEnabled = False, myHM = 0, myVDEL = False, myPos = 0, myMotionClock = 0,
     myStart = 0, myHMmmr = False, moveable.myMask = DisabledMask 0,
     myGRP = 0, myREFP = False, mySuppress = 0, myDGRP = 0, myCurrentGRP = 0,
     player.myNUSIZ = 0\<rparr>"

definition exMissile :: missile where
  "exMissile = \<lparr>isEnabled = False, myHM = 0, myVDEL = False, myPos = 0, myMotionClock = 0,
     myStart = 0, myHMmmr = False, moveable.myMask = DisabledMask 0,
     myENABLE = False, missile.myNUSIZ = 0, myRESMP = False\<rparr>"

definition exBall :: ball where
  "exBall = \<lparr>isEnabled = False, myHM = 0, myVDEL = False, myPos = 0, myMotionClock = 0,
     myStart = 0, myHMmmr = False, moveable.myMask = DisabledMask 0,
     myENABLE = False, ball.myCTRLPF = 0, myDENABLE = False, myCurrentEnabled = False\<rparr>"

definition exPlayfield :: playfield where
  "exPlayfield = \<lparr>isEnabled = False, playfield.myCTRLPF = 0, myPF = 0,
     myPriorityAndScore = 0, playfield.myMask = PFMask 0\<rparr>"

text \<open>A TIA as its constructor leaves it (the members the constructor does not
  initialise are zero here), and the TIA after \<open>reset()\<close> at cycle 0.\<close>

definition exPowerOn :: tia where
  "exPowerOn = \<lparr>
     mySystem = \<lparr>cycles = 0, stopRequested = False, lastAccessWasRead = False\<rparr>,
     myCurrentFrameBuffer = (\<lambda>i. 0),
     myPreviousFrameBuffer = (\<lambda>i. 0),
     myFramePointer = 0,
     myFramePointerOffset = 0,
     myFramePointerClocks = 0,
     myFrameYStart = 34,
     myFrameHeight = 210,
     myStopDisplayOffset = 0,
     myClockWhenFrameStarted = 0,
     myClockStartDisplay = 0,
     myClockStopDisplay = 0,
     myClockAtLastUpdate = 0,
     myClocksToEndOfScanLine = 0,
     myScanlineCountForLastFrame = 0,
     myMaximumNumberOfScanlines = 262,
     myStartScanline = 0,
     myVSYNCFinishClock = 0,
     myVSYNC = 0,
     myVBLANK = 0,
     myPriorityEncoder = (\<lambda>x e. BKColor),
     myColor = (\<lambda>c. 0),
     myFixedColor = (\<lambda>c. 0),
     myColorPtrFixed = False,
     myCollision = 0,
     myCollisionEnabledMask = 0,
     myAUDV0 = 0, myAUDV1 = 0, myAUDC0 = 0, myAUDC1 = 0, myAUDF0 = 0, myAUDF1 = 0,
     myDumpDisabledCycle = 0,
     myDumpEnabled = False,
     myINPT4 = 0,
     myINPT5 = 0,
     myHMOVEBlankEnabled = False,
     myAllowHMOVEBlanks = False,
     myTIAPinsDriven = False,
     myDisabledObjects = 0,
     myColorLossEnabled = False,
     myPartialFrameFlag = False,
     myAutoFrameEnabled = False,
     myFrameCounter = 0,
     myPALFrameCounter = 0,
     myBitsEnabled = True,
     myCollisionsEnabled = True,
     myCurrentHMOVEPos = 0,
     myPreviousHMOVEPos = 0,
     myPlayer0 = exPlayer,
     myPlayer1 = exPlayer,
     myMissile0 = exMissile,
     myMissile1 = exMissile,
     myBall = exBall,
     myPlayfield = exPlayfield\<rparr>"

definition exTia :: tia where
  "exTia = reset exTables exConfig exPowerOn"

text \<open>The processor reaching cycle \<open>c\<close>, and a sequence of writes, each at its cycle.\<close>

definition atCycle :: "int \<Rightarrow> tia \<Rightarrow> tia" where
  "atCycle c s = s\<lparr>mySystem := (mySystem s)\<lparr>cycles := c\<rparr>\<rparr>"

fun pokes :: "tables \<Rightarrow> (int \<times> wreg \<times> 8 word) list \<Rightarrow> tia \<Rightarrow> tia option" where
  "pokes tb [] s = Some s"
| "pokes tb ((c, r, v) # ps) s =
     (case pokeReg tb r v (atCycle c s) of None \<Rightarrow> None | Some s' \<Rightarrow> pokes tb ps s')"

text \<open>The state in which \<open>update\<close> lets the processor run: the partial-frame flag is
  set. In \<open>exLate\<close> the frame has run for 290 scanlines without a VSYNC.\<close>

definition exRunning :: tia where
  "exRunning = exTia\<lparr>myPartialFrameFlag := True\<rparr>"

definition exLate :: tia where
  "exLate = atCycle (290 * 76) exRunning"

text \<open>The state just before the update that ends exactly on the boundary between the
  first two scanlines is repeated: the background colour is set, vertical blank is
  switched off by a write at cycle 76, which updates the frame up to clock 228.\<close>

definition exBoundary :: "tia option" where
  "exBoundary = pokes exTables [(1, VBLANK, 0x02), (2, COLUBK, 0x1A), (76, VBLANK, 0x00)] exTia"

text \<open>Frames one after the other, each ended when the processor has run for the given
  number of scanlines, and the next one started. Sixty frames after reset, the first 25
  of them with 312 scanlines, the others with 262.\<close>

fun frames :: "int list \<Rightarrow> tia \<Rightarrow> tia" where
  "frames [] s = s"
| "frames (n # ns) s = frames ns (startFrame (endFrame (atCycle (n * SCANLINE_CYCLES) s)))"

definition exSixty :: tia where
  "exSixty = frames (replicate 25 312 @ replicate 35 262) exTia"

subsection \<open>Notions used in the statements\<close>

text \<open>The members of the TIA that rendering does not write.\<close>

definition sideState :: "tia \<Rightarrow>
    system \<times> bool \<times> 8 word \<times> 8 word \<times> 8 word \<times> 8 word \<times> int \<times> int \<times> int \<times> int \<times> int
    \<times> 32 word \<times> 32 word \<times> 32 word \<times> bool \<times> 8 word" where
  "sideState s = (mySystem s, myPartialFrameFlag s, myINPT4 s, myINPT5 s, myVBLANK s,
     myVSYNC s, myClockWhenFrameStarted s, myVSYNCFinishClock s,
     myMaximumNumberOfScanlines s, myStartScanline s, myScanlineCountForLastFrame s,
     myCollisionEnabledMask s, myFrameCounter s, myPALFrameCounter s,
     myTIAPinsDriven s, myDisabledObjects s)"





text \<open>The two clock members that \<open>updateFrame\<close> moves on are consistent with the
  start of the frame.\<close>

definition wfClocks :: "tia \<Rightarrow> bool" where
  "wfClocks s = (myClockWhenFrameStarted s \<le> myClockAtLastUpdate s \<and> 0 \<le> myClocksToEndOfScanLine s)"

text \<open>The members that decide the end of the frame; the input latches and the other
  members that reads of the TIA depend on; the three clock members of \<open>wfClocks\<close>.\<close>

definition frameEndState :: "tia \<Rightarrow> bool \<times> bool \<times> int \<times> int \<times> int" where
  "frameEndState s = (stopRequested (mySystem s), myPartialFrameFlag s,
     myClockWhenFrameStarted s, myVSYNCFinishClock s, myMaximumNumberOfScanlines s)"

definition controlState :: "tia \<Rightarrow> 8 word \<times> 8 word \<times> 8 word \<times> 32 word \<times> 32 word \<times> 32 word \<times> bool" where
  "controlState s = (myINPT4 s, myINPT5 s, myVBLANK s, myFrameCounter s, myPALFrameCounter s,
     myCollisionEnabledMask s, myTIAPinsDriven s)"

definition clockState :: "tia \<Rightarrow> int \<times> int \<times> int" where
  "clockState s = (myClockWhenFrameStarted s, myClockAtLastUpdate s, myClocksToEndOfScanLine s)"

text \<open>Accesses of the processor to the TIA, each with the value of the system's cycle
  counter at the access; a peek also has what it reads from outside. Running a sequence
  of accesses collects what the peeks returned, with the register read.\<close>

datatype access = Peek int inputs "16 word" | Poke int "16 word" "8 word"

fun runAccesses :: "tables \<Rightarrow> access list \<Rightarrow> tia \<Rightarrow> ((rreg \<times> 8 word) list \<times> tia) option" where
  "runAccesses tb [] s = Some ([], s)"
| "runAccesses tb (Peek c inp a # rest) s =
     (case peek tb inp a (atCycle c s) of
        None \<Rightarrow> None
      | Some (v, s1) \<Rightarrow>
          (case runAccesses tb rest s1 of
             None \<Rightarrow> None
           | Some (obs, s2) \<Rightarrow> Some ((decode_rreg a, v) # obs, s2)))"
| "runAccesses tb (Poke c a v # rest) s =
     (case poke tb a v (atCycle c s) of
        None \<Rightarrow> None
      | Some s1 \<Rightarrow> runAccesses tb rest s1)"




text \<open>The left button pressed (pin Six low), and a sequence of accesses: INPT4 is read
  with the button released, pressed and released again, with a write to VBLANK that
  keeps bit 6 in between.\<close>

definition exPressed :: inputs where
  "exPressed = exInputs\<lparr>leftSix := False\<rparr>"

definition exAccesses :: "access list" where
  "exAccesses = [Peek 10 exInputs 0x0C, Peek 20 exPressed 0x0C, Poke 30 0x01 0x42,
                 Peek 40 exInputs 0x0C]"








text \<open>The six objects, their bits, and the fifteen pairs: for each pair its collision
  bit, the two objects, the register that reads it and the bit of the read value, as
  the switch of \<open>peek\<close> and the groups of \<open>toggleCollision\<close> have them.\<close>

datatype tiaobj = ObjP0 | ObjM0 | ObjP1 | ObjM1 | ObjBL | ObjPF

fun objBit :: "tables \<Rightarrow> tiaobj \<Rightarrow> 8 word" where
  "objBit tb ObjP0 = P0Bit tb"
| "objBit tb ObjM0 = M0Bit tb"
| "objBit tb ObjP1 = P1Bit tb"
| "objBit tb ObjM1 = M1Bit tb"
| "objBit tb ObjBL = BLBit tb"
| "objBit tb ObjPF = PFBit tb"

definition cxPairs :: "((tables \<Rightarrow> 16 word) \<times> tiaobj \<times> tiaobj \<times> rreg \<times> 8 word) list" where
  "cxPairs =
    [(Cx_M0P1, ObjM0, ObjP1, CXM0P, 0x80), (Cx_M0P0, ObjM0, ObjP0, CXM0P, 0x40),
     (Cx_M1P0, ObjM1, ObjP0, CXM1P, 0x80), (Cx_M1P1, ObjM1, ObjP1, CXM1P, 0x40),
     (Cx_P0PF, ObjP0, ObjPF, CXP0FB, 0x80), (Cx_P0BL, ObjP0, ObjBL, CXP0FB, 0x40),
     (Cx_P1PF, ObjP1, ObjPF, CXP1FB, 0x80), (Cx_P1BL, ObjP1, ObjBL, CXP1FB, 0x40),
     (Cx_M0PF, ObjM0, ObjPF, CXM0FB, 0x80), (Cx_M0BL, ObjM0, ObjBL, CXM0FB, 0x40),
     (Cx_M1PF, ObjM1, ObjPF, CXM1FB, 0x80), (Cx_M1BL, ObjM1, ObjBL, CXM1FB, 0x40),
     (Cx_BLPF, ObjBL, ObjPF, CXBLPF, 0x80),
     (Cx_P0P1, ObjP0, ObjP1, CXPPMM, 0x80), (Cx_M0M1, ObjM0, ObjM1, CXPPMM, 0x40)]"

text \<open>An object is enabled at a horizontal position when the byte of enabled objects
  has its bit there.\<close>

definition enabledObj :: "tables \<Rightarrow> tia \<Rightarrow> tiaobj \<Rightarrow> int \<Rightarrow> bool" where
  "enabledObj tb s X hpos = (enabledAt tb s hpos AND objBit tb X \<noteq> 0)"

text \<open>Modelled from the spec: the table \<open>CollisionMask\<close> is built in TIATables.cxx, not
  under src. Section 4.2: indexed by the byte of the objects enabled at a pixel, it
  yields which of the pairwise collision bits to set; that is, the bit of a pair exactly
  when the byte has the bits of both objects of the pair.\<close>

definition collisionMaskSpec :: "tables \<Rightarrow> bool" where
  "collisionMaskSpec tb =
    (\<forall>p \<in> set cxPairs. case p of (cx, A, B, r, b) \<Rightarrow>
       (\<forall>e. (CollisionMask tb e AND cx tb \<noteq> 0) = (e AND objBit tb A \<noteq> 0 \<and> e AND objBit tb B \<noteq> 0)))"

text \<open>The collision flag of an object is off: its bit is clear in the high 16 bits of
  \<open>myCollisionEnabledMask\<close>. The low 16 bits are the mask \<open>toggleCollision\<close> computes
  from the high ones.\<close>

definition collisionFlagOff :: "tables \<Rightarrow> tia \<Rightarrow> tiaobj \<Rightarrow> bool" where
  "collisionFlagOff tb s X =
    ((ucast (drop_bit 16 (myCollisionEnabledMask s)) :: 16 word) AND ucast (objBit tb X) = 0)"

definition maskConsistent :: "tables \<Rightarrow> tia \<Rightarrow> bool" where
  "maskConsistent tb s =
    ((ucast (myCollisionEnabledMask s) :: 16 word)
       = collisionMaskOf tb (ucast (drop_bit 16 (myCollisionEnabledMask s))))"

text \<open>Two frames: in the first, both players are switched on at cycles 1 and 2 and
  off again at cycles 110 and 111; the frame ends after 263 scanlines and the next one
  starts; it is updated up to cycle 100.\<close>

definition exFrame1 :: "tia option" where
  "exFrame1 = pokes exTables
     [(1, GRP0, 0xFF), (2, GRP1, 0xFF), (110, GRP0, 0x00), (111, GRP1, 0x00)] exTia"

definition exFrame2 :: "tia option" where
  "exFrame2 = map_option (\<lambda>s. atCycle 100 (startFrame (endFrame (atCycle (263 * 76) s)))) exFrame1"

section \<open>Properties\<close>

subsection \<open>Arithmetic helpers\<close>

lemma crem_nonneg: "0 \<le> a \<Longrightarrow> 0 < b \<Longrightarrow> crem a b = a mod b"
  by (simp add: crem_def cdiv_def sgn_if minus_mult_div_eq_mod)

lemma int16_id: "- 32768 \<le> x \<Longrightarrow> x < 32768 \<Longrightarrow> int16 x = x"
  by (simp add: int16_def)

lemma CLAMP_POS_mod: "- 160 \<le> x \<Longrightarrow> x < 160 \<Longrightarrow> CLAMP_POS x = x mod 160"
proof (cases "x < 0")
  case True
  assume "- 160 \<le> x"
  with True have "x mod 160 = x + 160" by presburger
  with True \<open>- 160 \<le> x\<close> show ?thesis by (simp add: CLAMP_POS_def crem_nonneg)
next
  case False
  assume "x < 160"
  with False show ?thesis by (simp add: CLAMP_POS_def crem_nonneg)
qed

lemma motclk_of_range: "0 \<le> motclk_of v \<and> motclk_of v \<le> 15"
proof -
  have "uint (drop_bit 4 (v XOR 0x80)) = uint (v XOR 0x80) div 16"
    by (simp add: drop_bit_eq_div uint_div)
  moreover have "uint (v XOR 0x80) < 256"
    using uint_bounded[of "v XOR 0x80"] by simp
  ultimately have "uint (drop_bit 4 (v XOR 0x80)) \<le> 15" by simp
  then show ?thesis by (simp add: motclk_of_def)
qed

subsection \<open>What rendering leaves alone\<close>

text \<open>\<open>updateFrame\<close> writes the frame buffer, the collision latches, the masks of the
  objects and its own clocks, and nothing of \<open>sideState\<close>.\<close>

lemma sideState_renderPixels: "sideState (renderPixels tb n h s) = sideState s"
  by (induction n arbitrary: h s) (simp_all add: renderPixel_def Let_def sideState_def)

lemma sideState_interLine: "sideState (interLine s) = sideState s"
  by (simp add: interLine_def Let_def sideState_def)

lemma sideState_advanceClocks: "sideState (snd (advanceClocks c s)) = sideState s"
  by (simp add: advanceClocks_def sideState_def)

lemma sideState_renderSpan: "sideState (renderSpan tb a b s) = sideState s"
proof -
  have "sideState (renderPixels tb n h (updateMasks t)) = sideState t" for n h t
    by (simp add: sideState_renderPixels) (simp add: sideState_def updateMasks_def)
  then show ?thesis
    by (simp add: renderSpan_def Let_def) (simp add: sideState_def)
qed

lemma sideState_hmoveBlanks: "sideState (hmoveBlanks a b c s) = sideState s"
  by (simp add: hmoveBlanks_def Let_def sideState_def)

lemma sideState_endOfScanline: "sideState (endOfScanline s) = sideState s"
  by (simp add: endOfScanline_def sideState_def)

lemma sideState_updateLine: "sideState (updateLine tb clock nf s) = sideState s"
  by (simp add: updateLine_def Let_def sideState_endOfScanline sideState_hmoveBlanks
      sideState_renderSpan sideState_advanceClocks sideState_interLine)

lemma sideState_updateLines: "sideState (updateLines tb clock nf n s) = sideState s"
  by (induction n arbitrary: nf s) (simp_all add: sideState_updateLine)

lemma sideState_updateFrame: "updateFrame tb clock s = Some s' \<Longrightarrow> sideState s' = sideState s"
  by (auto simp: updateFrame_def Let_def sideState_updateLines split: if_splits)


subsection \<open>What a write to a register leaves alone\<close>

lemma controlState_updateFrame:
  "updateFrame tb c s = Some s' \<Longrightarrow> controlState s' = controlState s"
  using sideState_updateFrame [of tb c s s'] by (simp add: sideState_def controlState_def)

lemma frameEndState_updateFrame:
  "updateFrame tb c s = Some s' \<Longrightarrow> frameEndState s' = frameEndState s"
  using sideState_updateFrame [of tb c s s'] by (simp add: sideState_def frameEndState_def)

lemma controlState_upd [simp]:
  "controlState (updP0 tb r v s) = controlState s"
  "controlState (updP1 tb r v s) = controlState s"
  "controlState (updM0 r v s) = controlState s"
  "controlState (updM1 r v s) = controlState s"
  "controlState (updBL r v s) = controlState s"
  "controlState (updPF r v s) = controlState s"
  by (simp_all add: updP0_def updP1_def updM0_def updM1_def updBL_def updPF_def controlState_def)

lemma frameEndState_upd [simp]:
  "frameEndState (updP0 tb r v s) = frameEndState s"
  "frameEndState (updP1 tb r v s) = frameEndState s"
  "frameEndState (updM0 r v s) = frameEndState s"
  "frameEndState (updM1 r v s) = frameEndState s"
  "frameEndState (updBL r v s) = frameEndState s"
  "frameEndState (updPF r v s) = frameEndState s"
  by (simp_all add: updP0_def updP1_def updM0_def updM1_def updBL_def updPF_def frameEndState_def)

lemma clockState_upd [simp]:
  "clockState (updP0 tb r v s) = clockState s"
  "clockState (updP1 tb r v s) = clockState s"
  "clockState (updM0 r v s) = clockState s"
  "clockState (updM1 r v s) = clockState s"
  "clockState (updBL r v s) = clockState s"
  "clockState (updPF r v s) = clockState s"
  by (simp_all add: updP0_def updP1_def updM0_def updM1_def updBL_def updPF_def clockState_def)

lemma controlState_fields [simp]:
  "controlState (s\<lparr>myColor := c\<rparr>) = controlState s"
  "controlState (s\<lparr>myCollision := x\<rparr>) = controlState s"
  "controlState (s\<lparr>myAUDC0 := a\<rparr>) = controlState s"
  "controlState (s\<lparr>myAUDC1 := a\<rparr>) = controlState s"
  "controlState (s\<lparr>myAUDF0 := a\<rparr>) = controlState s"
  "controlState (s\<lparr>myAUDF1 := a\<rparr>) = controlState s"
  "controlState (s\<lparr>myAUDV0 := a\<rparr>) = controlState s"
  "controlState (s\<lparr>myAUDV1 := a\<rparr>) = controlState s"
  "controlState (s\<lparr>myPlayer0 := p\<rparr>) = controlState s"
  "controlState (s\<lparr>myPlayer1 := p\<rparr>) = controlState s"
  "controlState (s\<lparr>myCurrentHMOVEPos := i\<rparr>) = controlState s"
  "controlState (s\<lparr>myHMOVEBlankEnabled := b\<rparr>) = controlState s"
  "controlState (s\<lparr>mySystem := y\<rparr>) = controlState s"
  "controlState (s\<lparr>myPartialFrameFlag := b\<rparr>) = controlState s"
  "controlState (s\<lparr>myVSYNC := a\<rparr>) = controlState s"
  "controlState (s\<lparr>myVSYNCFinishClock := i\<rparr>) = controlState s"
  by (simp_all add: controlState_def)

lemma frameEndState_fields [simp]:
  "frameEndState (s\<lparr>myColor := c\<rparr>) = frameEndState s"
  "frameEndState (s\<lparr>myCollision := x\<rparr>) = frameEndState s"
  "frameEndState (s\<lparr>myAUDC0 := a\<rparr>) = frameEndState s"
  "frameEndState (s\<lparr>myAUDC1 := a\<rparr>) = frameEndState s"
  "frameEndState (s\<lparr>myAUDF0 := a\<rparr>) = frameEndState s"
  "frameEndState (s\<lparr>myAUDF1 := a\<rparr>) = frameEndState s"
  "frameEndState (s\<lparr>myAUDV0 := a\<rparr>) = frameEndState s"
  "frameEndState (s\<lparr>myAUDV1 := a\<rparr>) = frameEndState s"
  "frameEndState (s\<lparr>myPlayer0 := p\<rparr>) = frameEndState s"
  "frameEndState (s\<lparr>myPlayer1 := p\<rparr>) = frameEndState s"
  "frameEndState (s\<lparr>myCurrentHMOVEPos := i\<rparr>) = frameEndState s"
  "frameEndState (s\<lparr>myHMOVEBlankEnabled := b\<rparr>) = frameEndState s"
  "frameEndState (s\<lparr>myVBLANK := a\<rparr>) = frameEndState s"
  "frameEndState (s\<lparr>myINPT4 := a\<rparr>) = frameEndState s"
  "frameEndState (s\<lparr>myINPT5 := a\<rparr>) = frameEndState s"
  "frameEndState (s\<lparr>myDumpEnabled := b\<rparr>) = frameEndState s"
  "frameEndState (s\<lparr>myDumpDisabledCycle := i\<rparr>) = frameEndState s"
  "frameEndState (s\<lparr>myStartScanline := i\<rparr>) = frameEndState s"
  by (simp_all add: frameEndState_def)

lemma clockState_fields [simp]:
  "clockState (s\<lparr>myColor := c\<rparr>) = clockState s"
  "clockState (s\<lparr>myCollision := x\<rparr>) = clockState s"
  "clockState (s\<lparr>myAUDC0 := a\<rparr>) = clockState s"
  "clockState (s\<lparr>myAUDC1 := a\<rparr>) = clockState s"
  "clockState (s\<lparr>myAUDF0 := a\<rparr>) = clockState s"
  "clockState (s\<lparr>myAUDF1 := a\<rparr>) = clockState s"
  "clockState (s\<lparr>myAUDV0 := a\<rparr>) = clockState s"
  "clockState (s\<lparr>myAUDV1 := a\<rparr>) = clockState s"
  "clockState (s\<lparr>myPlayer0 := p\<rparr>) = clockState s"
  "clockState (s\<lparr>myPlayer1 := p\<rparr>) = clockState s"
  "clockState (s\<lparr>myCurrentHMOVEPos := i\<rparr>) = clockState s"
  "clockState (s\<lparr>myHMOVEBlankEnabled := b\<rparr>) = clockState s"
  "clockState (s\<lparr>myVBLANK := a\<rparr>) = clockState s"
  "clockState (s\<lparr>myINPT4 := a\<rparr>) = clockState s"
  "clockState (s\<lparr>myINPT5 := a\<rparr>) = clockState s"
  "clockState (s\<lparr>myDumpEnabled := b\<rparr>) = clockState s"
  "clockState (s\<lparr>myDumpDisabledCycle := i\<rparr>) = clockState s"
  "clockState (s\<lparr>myStartScanline := i\<rparr>) = clockState s"
  "clockState (s\<lparr>mySystem := y\<rparr>) = clockState s"
  "clockState (s\<lparr>myPartialFrameFlag := b\<rparr>) = clockState s"
  "clockState (s\<lparr>myVSYNC := a\<rparr>) = clockState s"
  "clockState (s\<lparr>myVSYNCFinishClock := i\<rparr>) = clockState s"
  by (simp_all add: clockState_def)

lemma wfClocks_clockState: "clockState s' = clockState s \<Longrightarrow> wfClocks s' = wfClocks s"
  by (simp add: clockState_def wfClocks_def)

lemma setPlayer_state [simp]:
  "controlState (setPlayer b f t) = controlState t"
  "frameEndState (setPlayer b f t) = frameEndState t"
  "clockState (setPlayer b f t) = clockState t"
  by (simp_all add: setPlayer_def)

lemma controlState_respSuppress:
  "respSuppress tb second c pl x s = Some s' \<Longrightarrow> controlState s' = controlState s"
  by (auto simp: respSuppress_def Let_def split: if_splits option.splits
      dest!: controlState_updateFrame)

lemma frameEndState_respSuppress:
  "respSuppress tb second c pl x s = Some s' \<Longrightarrow> frameEndState s' = frameEndState s"
  by (auto simp: respSuppress_def Let_def split: if_splits option.splits
      dest!: frameEndState_updateFrame)

lemma controlState_pokeRESP:
  "pokeRESP tb second c s = Some s' \<Longrightarrow> controlState s' = controlState s"
  by (auto simp: pokeRESP_def Let_def split: if_splits option.splits
      dest!: controlState_respSuppress)

lemma frameEndState_pokeRESP:
  "pokeRESP tb second c s = Some s' \<Longrightarrow> frameEndState s' = frameEndState s"
  by (auto simp: pokeRESP_def Let_def split: if_splits option.splits
      dest!: frameEndState_respSuppress)

lemma controlState_waitHorizontalSync:
  "controlState (waitHorizontalSync s) = controlState s"
  by (simp add: waitHorizontalSync_def Let_def)

lemma frameEndState_waitHorizontalSync:
  "frameEndState (waitHorizontalSync s) = frameEndState s"
  by (simp add: waitHorizontalSync_def Let_def frameEndState_def)

lemma clockState_waitHorizontalSync:
  "clockState (waitHorizontalSync s) = clockState s"
  by (simp add: waitHorizontalSync_def Let_def)

lemma controlState_pokeRegister:
  assumes "pokeRegister tb r v c s = Some s'" and "r \<noteq> VSYNC" and "r \<noteq> VBLANK"
  shows "controlState s' = controlState s"
proof (cases r)
  case NUSIZ0
  with assms show ?thesis
    by (auto simp: pokeRegister_def Let_def split: option.splits dest!: controlState_updateFrame)
next
  case NUSIZ1
  with assms show ?thesis
    by (auto simp: pokeRegister_def Let_def split: option.splits dest!: controlState_updateFrame)
next
  case RESP0
  with assms show ?thesis by (simp add: pokeRegister_def controlState_pokeRESP)
next
  case RESP1
  with assms show ?thesis by (simp add: pokeRegister_def controlState_pokeRESP)
next
  case WSYNC
  with assms show ?thesis by (auto simp: pokeRegister_def controlState_waitHorizontalSync)
next
  case HMOVE
  with assms show ?thesis
    by (auto simp: pokeRegister_def Let_def split: if_splits)
qed (use assms in \<open>simp_all add: pokeRegister_def\<close>, auto)

lemma frameEndState_pokeRegister:
  assumes "pokeRegister tb r v c s = Some s'" and "r \<noteq> VSYNC"
  shows "frameEndState s' = frameEndState s"
proof (cases r)
  case NUSIZ0
  with assms show ?thesis
    by (auto simp: pokeRegister_def Let_def split: option.splits dest!: frameEndState_updateFrame)
next
  case NUSIZ1
  with assms show ?thesis
    by (auto simp: pokeRegister_def Let_def split: option.splits dest!: frameEndState_updateFrame)
next
  case RESP0
  with assms show ?thesis by (simp add: pokeRegister_def frameEndState_pokeRESP)
next
  case RESP1
  with assms show ?thesis by (simp add: pokeRegister_def frameEndState_pokeRESP)
next
  case WSYNC
  with assms show ?thesis by (auto simp: pokeRegister_def frameEndState_waitHorizontalSync)
next
  case HMOVE
  with assms show ?thesis
    by (auto simp: pokeRegister_def Let_def split: if_splits)
next
  case VBLANK
  with assms show ?thesis
    by (auto simp: pokeRegister_def Let_def split: if_splits)
qed (use assms in \<open>simp_all add: pokeRegister_def\<close>, auto)


subsection \<open>The input latches\<close>



lemma button_and: "(if c then (0x80 :: 8 word) else 0) AND 0x80 = (if c then 0x80 else 0)"
  by simp

lemma latches_atCycle [simp]:
  "myINPT4 (atCycle c s) = myINPT4 s" "myINPT5 (atCycle c s) = myINPT5 s"
  "myVBLANK (atCycle c s) = myVBLANK s"
  by (simp_all add: atCycle_def)







subsection \<open>The frame is updated in finitely many scanlines\<close>

text \<open>When the clocks are consistent and the target is less than \<open>2 ^ 32\<close> clocks after the
  start of the frame, the loop of \<open>updateFrame\<close> ends, and the clocks stay consistent.\<close>

lemma clockState_renderPixels: "clockState (renderPixels tb n h s) = clockState s"
  by (induction n arbitrary: h s) (simp_all add: renderPixel_def Let_def clockState_def)

lemma clockState_interLine: "clockState (interLine s) = clockState s"
  by (simp add: interLine_def Let_def clockState_def)

lemma clockState_renderSpan: "clockState (renderSpan tb a b s) = clockState s"
proof -
  have "clockState (renderPixels tb n h (updateMasks t)) = clockState t" for n h t
    by (simp add: clockState_renderPixels) (simp add: clockState_def updateMasks_def)
  then show ?thesis
    by (simp add: renderSpan_def Let_def) (simp add: clockState_def)
qed

lemma clockState_hmoveBlanks: "clockState (hmoveBlanks a b c s) = clockState s"
  by (simp add: hmoveBlanks_def Let_def clockState_def)

lemma clockState_endOfScanline: "clockState (endOfScanline s) = clockState s"
  by (simp add: endOfScanline_def)

lemma clockState_updateLine:
  "clockState (updateLine tb clock nf s) = clockState (snd (advanceClocks clock s))"
proof -
  have "clockState (snd (advanceClocks clock (interLine s))) = clockState (snd (advanceClocks clock s))"
    using clockState_interLine [of s] by (simp add: advanceClocks_def clockState_def)
  then show ?thesis
    by (simp add: updateLine_def Let_def clockState_endOfScanline clockState_hmoveBlanks
      clockState_renderSpan)
qed

lemma wfClocks_updateLine:
  assumes "wfClocks s" and "myClockWhenFrameStarted s \<le> clock"
  shows "wfClocks (updateLine tb clock nf s)
       \<and> myClockWhenFrameStarted (updateLine tb clock nf s) = myClockWhenFrameStarted s"
  using assms clockState_updateLine [of tb clock nf s]
  by (auto simp: clockState_def wfClocks_def advanceClocks_def split: if_splits)

lemma wfClocks_updateLines:
  assumes "wfClocks s" and "myClockWhenFrameStarted s \<le> clock"
  shows "wfClocks (updateLines tb clock nf n s)"
  using assms
proof (induction n arbitrary: nf s)
  case 0
  then show ?case by simp
next
  case (Suc n)
  from wfClocks_updateLine [OF Suc.prems, of tb nf]
  show ?case using Suc.IH [of "updateLine tb clock nf s" True] Suc.prems by simp
qed

lemma uint32_id: "0 \<le> x \<Longrightarrow> x < 4294967296 \<Longrightarrow> uint32 x = x"
  by (simp add: uint32_def)

lemma cdiv_nonneg: "0 \<le> a \<Longrightarrow> 0 < b \<Longrightarrow> cdiv a b = a div b"
  by (simp add: cdiv_def sgn_if)

lemma updateFrame_total:
  assumes "wfClocks s" and "clock0 - myClockWhenFrameStarted s < 4294967296"
  shows "\<exists>s'. updateFrame tb clock0 s = Some s' \<and> wfClocks s'"
proof (cases "clock0 < myClockStartDisplay s \<or> myClockAtLastUpdate s \<ge> myClockStopDisplay s
        \<or> myClockAtLastUpdate s \<ge> clock0")
  case True
  with assms show ?thesis by (auto simp: updateFrame_def)
next
  case False
  define clock where "clock = (if clock0 > myClockStopDisplay s then myClockStopDisplay s else clock0)"
  from False assms(1) have c: "myClockWhenFrameStarted s \<le> clock" "clock \<le> clock0"
    by (auto simp: clock_def wfClocks_def)
  with assms(2) have x: "0 \<le> clock - myClockWhenFrameStarted s"
    "clock - myClockWhenFrameStarted s < 4294967296" by simp_all
  then have d: "0 \<le> (clock - myClockWhenFrameStarted s) div 228"
    "(clock - myClockWhenFrameStarted s) div 228 < 4294967295" by simp_all
  then have e: "uint32 (cdiv (clock - myClockWhenFrameStarted s) 228) \<noteq> 4294967295"
    using x by (simp add: cdiv_nonneg uint32_id)
  from wfClocks_updateLines [OF assms(1) c(1)] assms(1) e False show ?thesis
    by (auto simp: updateFrame_def Let_def clock_def [symmetric])
qed

lemma wfClocks_updateFrame:
  assumes "updateFrame tb clock0 s = Some s'" and "wfClocks s"
  shows "wfClocks s'"
proof (cases "clock0 < myClockStartDisplay s \<or> myClockAtLastUpdate s \<ge> myClockStopDisplay s
        \<or> myClockAtLastUpdate s \<ge> clock0")
  case True
  with assms show ?thesis by (auto simp: updateFrame_def)
next
  case False
  define clock where "clock = (if clock0 > myClockStopDisplay s then myClockStopDisplay s else clock0)"
  from False assms(2) have c: "myClockWhenFrameStarted s \<le> clock"
    by (auto simp: clock_def wfClocks_def)
  from wfClocks_updateLines [OF assms(2) c] assms False show ?thesis
    by (auto simp: updateFrame_def Let_def clock_def [symmetric] split: if_splits)
qed

lemma wfClocks_alt:
  "wfClocks s = (fst (clockState s) \<le> fst (snd (clockState s)) \<and> 0 \<le> snd (snd (clockState s)))"
  by (simp add: wfClocks_def clockState_def)

lemma wfClocks_updateFrame':
  "updateFrame tb clock0 s = Some s' \<Longrightarrow>
   fst (clockState s) \<le> fst (snd (clockState s)) \<and> 0 \<le> snd (snd (clockState s)) \<Longrightarrow>
   fst (clockState s') \<le> fst (snd (clockState s')) \<and> 0 \<le> snd (snd (clockState s'))"
  using wfClocks_updateFrame [of tb clock0 s s'] by (simp add: wfClocks_alt)

lemma clockState_endLateFrame [simp]: "clockState (endLateFrame c s) = clockState s"
  by (simp add: endLateFrame_def stopProcessor_def)

lemma wfClocks_respSuppress:
  assumes "respSuppress tb second c pl x s = Some s'" and "wfClocks s"
  shows "wfClocks s'"
  using assms
  by (auto simp: respSuppress_def Let_def wfClocks_alt split: if_splits option.splits
      dest!: wfClocks_updateFrame')

lemma wfClocks_pokeRESP:
  assumes "pokeRESP tb second c s = Some s'" and "wfClocks s"
  shows "wfClocks s'"
  using assms
  by (auto simp: pokeRESP_def Let_def split: if_splits option.splits
      dest!: wfClocks_respSuppress simp: wfClocks_alt)

lemma wfClocks_pokeRegister:
  assumes "pokeRegister tb r v c s = Some s'" and "wfClocks s"
  shows "wfClocks s'"
proof (cases r)
  case NUSIZ0
  with assms show ?thesis
    by (auto simp: pokeRegister_def Let_def split: option.splits dest!: wfClocks_updateFrame'
        simp: wfClocks_alt)
next
  case NUSIZ1
  with assms show ?thesis
    by (auto simp: pokeRegister_def Let_def split: option.splits dest!: wfClocks_updateFrame'
        simp: wfClocks_alt)
next
  case RESP0
  with assms show ?thesis by (simp add: pokeRegister_def wfClocks_pokeRESP)
next
  case RESP1
  with assms show ?thesis by (simp add: pokeRegister_def wfClocks_pokeRESP)
next
  case WSYNC
  with assms show ?thesis
    by (auto simp: pokeRegister_def wfClocks_alt clockState_waitHorizontalSync)
next
  case HMOVE
  with assms show ?thesis
    by (auto simp: pokeRegister_def Let_def split: if_splits simp: wfClocks_alt)
next
  case VBLANK
  with assms show ?thesis
    by (auto simp: pokeRegister_def Let_def split: if_splits simp: wfClocks_alt)
next
  case VSYNC
  with assms show ?thesis
    by (auto simp: pokeRegister_def Let_def stopProcessor_def split: if_splits
        simp: wfClocks_alt)
qed (use assms in \<open>auto simp: pokeRegister_def simp: wfClocks_alt\<close>)

lemma wfClocks_pokeReg:
  assumes "pokeReg tb r v s = Some s'" and "wfClocks s"
  shows "wfClocks s'"
proof -
  from assms(1) obtain d t where t: "updateFrame tb d s = Some t"
    and r: "pokeRegister tb r v (cycles (mySystem s) * PIXEL_CLOCKS)
              (endLateFrame (cycles (mySystem s) * PIXEL_CLOCKS) t) = Some s'"
    by (auto simp: pokeReg_def Let_def split: option.splits)
  from wfClocks_updateFrame [OF t assms(2)]
  have "wfClocks (endLateFrame (cycles (mySystem s) * PIXEL_CLOCKS) t)"
    by (simp add: wfClocks_alt)
  with r show ?thesis by (rule wfClocks_pokeRegister)
qed

lemma respSuppress_total:
  assumes "wfClocks s" and "c + 11 - myClockWhenFrameStarted s < 4294967296"
  shows "\<exists>t. respSuppress tb second c pl x s = Some t"
proof -
  from updateFrame_total [OF assms] obtain t where "updateFrame tb (c + 11) s = Some t" by blast
  then show ?thesis by (simp add: respSuppress_def Let_def)
qed

lemma pokeRESP_total:
  assumes "wfClocks s" and "c + 11 - myClockWhenFrameStarted s < 4294967296"
  shows "\<exists>s'. pokeRESP tb second c s = Some s'"
proof (cases "pokeRESP tb second c s")
  case None
  then show ?thesis
    using respSuppress_total [OF assms, of tb second "myPlayer1 s"
        "respNewX s (myPlayer1 s) (hpos_of c (myClockWhenFrameStarted s))"]
      respSuppress_total [OF assms, of tb second "myPlayer0 s"
        "respNewX s (myPlayer0 s) (hpos_of c (myClockWhenFrameStarted s))"]
    by (simp add: pokeRESP_def Let_def split: if_splits option.splits)
qed simp

lemma pokeRegister_total:
  assumes "wfClocks s" and "c + 11 - myClockWhenFrameStarted s < 4294967296"
  shows "\<exists>s'. pokeRegister tb r v c s = Some s'"
proof (cases r)
  case NUSIZ0
  from assms(2) have "c + 8 - myClockWhenFrameStarted s < 4294967296" by simp
  from updateFrame_total [OF assms(1) this] obtain t where "updateFrame tb (c + 8) s = Some t" by blast
  with NUSIZ0 show ?thesis by (simp add: pokeRegister_def Let_def)
next
  case NUSIZ1
  from assms(2) have "c + 8 - myClockWhenFrameStarted s < 4294967296" by simp
  from updateFrame_total [OF assms(1) this] obtain t where "updateFrame tb (c + 8) s = Some t" by blast
  with NUSIZ1 show ?thesis by (simp add: pokeRegister_def Let_def)
next
  case RESP0
  with pokeRESP_total [OF assms] show ?thesis by (simp add: pokeRegister_def)
next
  case RESP1
  with pokeRESP_total [OF assms] show ?thesis by (simp add: pokeRegister_def)
qed (simp_all add: pokeRegister_def Let_def)

lemma pfDelay_le: "pfDelay x \<le> 5"
proof -
  have a: "0 \<le> cdiv x 3 AND 3" by simp
  have b: "cdiv x 3 AND 3 \<le> 3" by (rule AND_upper2) simp
  define n where "n = nat (cdiv x 3 AND 3)"
  from a b have "n < 4" unfolding n_def by linarith
  then have "n = 0 \<or> n = 1 \<or> n = 2 \<or> n = 3" by arith
  then have "[4, 5, 2, 3 :: int] ! n \<le> 5" by auto
  then show ?thesis by (simp add: pfDelay_def n_def)
qed

lemma int16_lt: "int16 x < 32768"
  by (simp add: int16_def)

lemma pokeReg_total:
  assumes "wfClocks s"
    and "cycles (mySystem s) * PIXEL_CLOCKS - myClockWhenFrameStarted s < 2147483648"
  shows "\<exists>s'. pokeReg tb r v s = Some s'"
proof -
  define clock where "clock = cycles (mySystem s) * PIXEL_CLOCKS"
  define delay where "delay = (if int16 (PokeDelay tb r) = - 1 then
                    pfDelay (crem (clock - myClockWhenFrameStarted s) SCANLINE_CLOCKS)
                  else int16 (PokeDelay tb r))"
  have "delay < 32768" using pfDelay_le [of "crem (clock - myClockWhenFrameStarted s) SCANLINE_CLOCKS"]
      int16_lt [of "PokeDelay tb r"] by (auto simp: delay_def)
  with assms(2) have "clock + delay - myClockWhenFrameStarted s < 4294967296"
    by (simp add: clock_def)
  from updateFrame_total [OF assms(1) this] obtain t where t: "updateFrame tb (clock + delay) s = Some t"
    and wt: "wfClocks t" by blast
  from frameEndState_updateFrame [OF t] have st: "myClockWhenFrameStarted t = myClockWhenFrameStarted s"
    by (simp add: frameEndState_def)
  have w: "wfClocks (endLateFrame clock t)" using wt by (simp add: wfClocks_alt)
  have b: "clock + 11 - myClockWhenFrameStarted (endLateFrame clock t) < 4294967296"
    using assms(2) st by (simp add: clock_def endLateFrame_def stopProcessor_def)
  from pokeRegister_total [OF w b] obtain s' where "pokeRegister tb r v clock (endLateFrame clock t) = Some s'"
    by blast
  with t show ?thesis unfolding clock_def delay_def by (simp add: pokeReg_def Let_def)
qed

subsection \<open>The frame counters\<close>

lemma myFrameCounter_toggleBit: "myFrameCounter (snd (toggleBit b m s)) = myFrameCounter s"
  by (simp add: toggleBit_def Let_def)

lemma myFrameCounter_enableBits: "myFrameCounter (enableBits tb m s) = myFrameCounter s"
  by (simp add: enableBits_def Let_def myFrameCounter_toggleBit)

lemma myFrameCounter_frameReset: "myFrameCounter (frameReset cfg s) = myFrameCounter s"
  by (simp add: frameReset_def Let_def clearBuffers_def)

lemma myFrameCounter_reset: "myFrameCounter (reset tb cfg s) = 0"
  by (simp add: reset_def Let_def myFrameCounter_frameReset toggleFixedColors_def)

lemma counters_startFrame:
  "myFrameCounter (startFrame s) = myFrameCounter s"
  "myPALFrameCounter (startFrame s) = myPALFrameCounter s"
  by (simp_all add: startFrame_def Let_def resetCycles_def systemCyclesReset_def)

lemma myFrameCounter_endFrame:
  "myFrameCounter (endFrame s) =
     (if scanlines s \<le> myStartScanline s then myFrameCounter s else myFrameCounter s + 1)"
  by (simp add: endFrame_def Let_def counters_startFrame)

lemma counters_pokeRegister:
  assumes "pokeRegister tb r v c s = Some s'"
  shows "myFrameCounter s' = myFrameCounter s \<and> myPALFrameCounter s' = myPALFrameCounter s"
proof (cases "r = VSYNC \<or> r = VBLANK")
  case True
  with assms show ?thesis
    by (auto simp: pokeRegister_def Let_def stopProcessor_def split: if_splits)
next
  case False
  with controlState_pokeRegister [OF assms] show ?thesis by (simp add: controlState_def)
qed

lemma counters_poke:
  assumes "poke tb a v s = Some s'"
  shows "myFrameCounter s' = myFrameCounter s \<and> myPALFrameCounter s' = myPALFrameCounter s"
proof -
  define clock where "clock = cycles (mySystem s) * PIXEL_CLOCKS"
  from assms obtain d t where t: "updateFrame tb d s = Some t"
    and r: "pokeRegister tb (decode_wreg a) v clock (endLateFrame clock t) = Some s'"
    by (auto simp: poke_def pokeReg_def Let_def clock_def split: option.splits)
  from controlState_updateFrame [OF t]
  have "myFrameCounter (endLateFrame clock t) = myFrameCounter s"
    "myPALFrameCounter (endLateFrame clock t) = myPALFrameCounter s"
    by (simp_all add: endLateFrame_def stopProcessor_def controlState_def)
  with counters_pokeRegister [OF r] show ?thesis by simp
qed

lemma counters_peek:
  assumes "peek tb inp a s = Some (v, s')"
  shows "myFrameCounter s' = myFrameCounter s \<and> myPALFrameCounter s' = myPALFrameCounter s"
proof -
  from assms obtain t where t: "updateFrame tb (cycles (mySystem s) * PIXEL_CLOCKS) s = Some t"
    and r: "peekRegister tb inp (decode_rreg a) t = (v, s')"
    by (auto simp: peek_def split: option.splits)
  from r have "myFrameCounter s' = myFrameCounter t \<and> myPALFrameCounter s' = myPALFrameCounter t"
    by (cases "decode_rreg a") (auto simp: peekRegister_def Let_def)
  with controlState_updateFrame [OF t] show ?thesis by (simp add: controlState_def)
qed

lemma counters_atCycle [simp]:
  "myFrameCounter (atCycle c s) = myFrameCounter s"
  "myPALFrameCounter (atCycle c s) = myPALFrameCounter s"
  by (simp_all add: atCycle_def)

lemma counters_runAccesses:
  "runAccesses tb acs s = Some (obs, s') \<Longrightarrow>
     myFrameCounter s' = myFrameCounter s \<and> myPALFrameCounter s' = myPALFrameCounter s"
proof (induction acs arbitrary: s obs)
  case Nil
  then show ?case by simp
next
  case (Cons a acs)
  show ?case
  proof (cases a)
    case (Peek c inp ad)
    with Cons.prems obtain v s1 obs1 where p: "peek tb inp ad (atCycle c s) = Some (v, s1)"
      and run: "runAccesses tb acs s1 = Some (obs1, s')"
      by (auto split: option.splits)
    from Cons.IH [OF run] counters_peek [OF p] show ?thesis by simp
  next
    case (Poke c ad v)
    with Cons.prems obtain s1 where p: "poke tb ad v (atCycle c s) = Some s1"
      and run: "runAccesses tb acs s1 = Some (obs, s')"
      by (auto split: option.splits)
    from Cons.IH [OF run] counters_poke [OF p] show ?thesis by simp
  qed
qed

subsection \<open>The end of a frame\<close>

lemma pokeReg_split:
  assumes "pokeReg tb r v s = Some s'"
  obtains d t where "updateFrame tb d s = Some t"
    and "pokeRegister tb r v (cycles (mySystem s) * PIXEL_CLOCKS)
           (endLateFrame (cycles (mySystem s) * PIXEL_CLOCKS) t) = Some s'"
  using assms by (auto simp: pokeReg_def Let_def split: option.splits)

lemma pokeReg_VSYNC_on:
  assumes "pokeReg tb VSYNC v s = Some s'" and "v AND 0x02 \<noteq> 0"
  shows "myVSYNCFinishClock s' = cycles (mySystem s) * PIXEL_CLOCKS + SCANLINE_CLOCKS
       \<and> myClockWhenFrameStarted s' = myClockWhenFrameStarted s"
proof -
  from assms(1) obtain d t where t: "updateFrame tb d s = Some t"
    and r: "pokeRegister tb VSYNC v (cycles (mySystem s) * PIXEL_CLOCKS)
              (endLateFrame (cycles (mySystem s) * PIXEL_CLOCKS) t) = Some s'"
    by (rule pokeReg_split)
  from sideState_updateFrame [OF t] r assms(2) show ?thesis
    by (auto simp: pokeRegister_def Let_def sideState_def endLateFrame_def stopProcessor_def
        split: if_splits)
qed

lemma pokeReg_VSYNC_off:
  assumes "pokeReg tb VSYNC v s = Some s'" and "v AND 0x02 = 0"
    and "myVSYNCFinishClock s \<le> cycles (mySystem s) * PIXEL_CLOCKS"
  shows "stopRequested (mySystem s') \<and> \<not> myPartialFrameFlag s'
       \<and> cycles (mySystem s') = cycles (mySystem s)
       \<and> myClockWhenFrameStarted s' = myClockWhenFrameStarted s"
proof -
  from assms(1) obtain d t where t: "updateFrame tb d s = Some t"
    and r: "pokeRegister tb VSYNC v (cycles (mySystem s) * PIXEL_CLOCKS)
              (endLateFrame (cycles (mySystem s) * PIXEL_CLOCKS) t) = Some s'"
    by (rule pokeReg_split)
  from sideState_updateFrame [OF t] r assms(2,3) show ?thesis
    by (auto simp: pokeRegister_def Let_def sideState_def endLateFrame_def stopProcessor_def
        split: if_splits)
qed

lemma pokeReg_other:
  assumes "pokeReg tb r v s = Some s'" and "r \<noteq> VSYNC"
  shows "myVSYNCFinishClock s' = myVSYNCFinishClock s
       \<and> myClockWhenFrameStarted s' = myClockWhenFrameStarted s"
proof -
  from assms(1) obtain d t where t: "updateFrame tb d s = Some t"
    and r: "pokeRegister tb r v (cycles (mySystem s) * PIXEL_CLOCKS)
              (endLateFrame (cycles (mySystem s) * PIXEL_CLOCKS) t) = Some s'"
    by (rule pokeReg_split)
  from frameEndState_updateFrame [OF t] frameEndState_pokeRegister [OF r assms(2)] show ?thesis
    by (simp add: frameEndState_def endLateFrame_def stopProcessor_def split: if_splits)
qed

lemma atCycle_frame [simp]:
  "wfClocks (atCycle c s) = wfClocks s"
  "myVSYNCFinishClock (atCycle c s) = myVSYNCFinishClock s"
  "myClockWhenFrameStarted (atCycle c s) = myClockWhenFrameStarted s"
  "cycles (mySystem (atCycle c s)) = c"
  by (simp_all add: atCycle_def wfClocks_def)

lemma pokes_other:
  assumes "pokes tb ps s = Some s'" and "\<forall>p \<in> set ps. fst (snd p) \<noteq> VSYNC" and "wfClocks s"
  shows "wfClocks s' \<and> myVSYNCFinishClock s' = myVSYNCFinishClock s
       \<and> myClockWhenFrameStarted s' = myClockWhenFrameStarted s"
  using assms
proof (induction ps arbitrary: s)
  case Nil
  then show ?case by simp
next
  case (Cons p ps)
  obtain c r v where p: "p = (c, r, v)" by (cases p)
  with Cons.prems(1) obtain s1 where s1: "pokeReg tb r v (atCycle c s) = Some s1"
    and run: "pokes tb ps s1 = Some s'"
    by (auto split: option.splits)
  from Cons.prems(2) p have nv: "r \<noteq> VSYNC" and rest: "\<forall>p \<in> set ps. fst (snd p) \<noteq> VSYNC"
    by simp_all
  from wfClocks_pokeReg [OF s1] Cons.prems(3) have wf1: "wfClocks s1" by simp
  from Cons.IH [OF run rest wf1] pokeReg_other [OF s1 nv] show ?case by simp
qed

lemma ended_pokeRegister:
  assumes "pokeRegister tb r v c s = Some s'"
    and "stopRequested (mySystem s)" and "\<not> myPartialFrameFlag s"
  shows "stopRequested (mySystem s') \<and> \<not> myPartialFrameFlag s'"
proof (cases "r = VSYNC")
  case True
  with assms show ?thesis
    by (auto simp: pokeRegister_def Let_def stopProcessor_def split: if_splits)
next
  case False
  with frameEndState_pokeRegister [OF assms(1)] assms(2,3) show ?thesis
    by (simp add: frameEndState_def)
qed

lemma scanlines_later:
  assumes "myClockWhenFrameStarted s \<le> c * PIXEL_CLOCKS"
    and "(c + n * SCANLINE_CYCLES) * PIXEL_CLOCKS - myClockWhenFrameStarted s < 4294967296"
    and "0 \<le> n"
    and "cycles (mySystem s') = c + n * SCANLINE_CYCLES"
    and "myClockWhenFrameStarted s' = myClockWhenFrameStarted s"
    and "cycles (mySystem s) = c"
  shows "scanlines s' = scanlines s + n"
proof -
  define x where "x = c * 3 - myClockWhenFrameStarted s"
  have x0: "0 \<le> x" using assms(1) by (simp add: x_def)
  have e: "(c + n * 76) * 3 - myClockWhenFrameStarted s = x + n * 228" by (simp add: x_def algebra_simps)
  from assms(2) e have xb: "x + n * 228 < 4294967296" by simp
  from assms(3) have "0 \<le> n * 228" by simp
  with x0 xb have xb0: "x < 4294967296" by linarith
  have "scanlines s' = (x + n * 228) div 228"
    using x0 xb assms(3,4,5) e by (simp add: scanlines_def uint32_id)
  also have "\<dots> = x div 228 + n" by simp
  also have "\<dots> = scanlines s + n"
    using x0 xb0 assms(6) by (simp add: scanlines_def uint32_id x_def)
  finally show ?thesis .
qed


lemma late_cdiv:
  assumes "myClockWhenFrameStarted t \<le> cycles (mySystem t) * PIXEL_CLOCKS"
    and "cycles (mySystem t) * PIXEL_CLOCKS - myClockWhenFrameStarted t < 2147483648"
  shows "cdiv (cycles (mySystem t) * PIXEL_CLOCKS - myClockWhenFrameStarted t) SCANLINE_CLOCKS
           = scanlines t"
  using assms by (simp add: scanlines_def uint32_id cdiv_nonneg)

lemma pokeReg_late:
  assumes "pokeReg tb r v t = Some t'"
    and "myClockWhenFrameStarted t \<le> cycles (mySystem t) * PIXEL_CLOCKS"
    and "cycles (mySystem t) * PIXEL_CLOCKS - myClockWhenFrameStarted t < 2147483648"
    and "myMaximumNumberOfScanlines t \<le> scanlines t"
  shows "stopRequested (mySystem t') \<and> \<not> myPartialFrameFlag t'"
proof -
  define clock where "clock = cycles (mySystem t) * PIXEL_CLOCKS"
  from assms(1) obtain d t1 where t1: "updateFrame tb d t = Some t1"
    and r: "pokeRegister tb r v clock (endLateFrame clock t1) = Some t'"
    unfolding clock_def by (rule pokeReg_split)
  from frameEndState_updateFrame [OF t1] late_cdiv [OF assms(2,3)] assms(4)
  have "stopRequested (mySystem (endLateFrame clock t1))"
    "\<not> myPartialFrameFlag (endLateFrame clock t1)"
    by (simp_all add: endLateFrame_def stopProcessor_def frameEndState_def clock_def)
  with ended_pokeRegister [OF r] show ?thesis by simp
qed

lemma pokeReg_early:
  assumes "pokeReg tb r v u = Some u'"
    and "myClockWhenFrameStarted u \<le> cycles (mySystem u) * PIXEL_CLOCKS"
    and "cycles (mySystem u) * PIXEL_CLOCKS - myClockWhenFrameStarted u < 2147483648"
    and "scanlines u < myMaximumNumberOfScanlines u" and "r \<noteq> VSYNC"
  shows "stopRequested (mySystem u') = stopRequested (mySystem u)
       \<and> myPartialFrameFlag u' = myPartialFrameFlag u"
proof -
  define clock where "clock = cycles (mySystem u) * PIXEL_CLOCKS"
  from assms(1) obtain d t1 where t1: "updateFrame tb d u = Some t1"
    and r: "pokeRegister tb r v clock (endLateFrame clock t1) = Some u'"
    unfolding clock_def by (rule pokeReg_split)
  from frameEndState_updateFrame [OF t1] late_cdiv [OF assms(2,3)] assms(4)
  have "endLateFrame clock t1 = t1"
    by (simp add: endLateFrame_def frameEndState_def clock_def)
  with frameEndState_pokeRegister [OF r assms(5)] frameEndState_updateFrame [OF t1]
  show ?thesis by (simp add: frameEndState_def)
qed

subsection \<open>The quotient of the counters after reset\<close>

lemma myPALFrameCounter_toggleBit: "myPALFrameCounter (snd (toggleBit b m s)) = myPALFrameCounter s"
  by (simp add: toggleBit_def Let_def)

lemma myPALFrameCounter_enableBits: "myPALFrameCounter (enableBits tb m s) = myPALFrameCounter s"
  by (simp add: enableBits_def Let_def myPALFrameCounter_toggleBit)

lemma myPALFrameCounter_frameReset: "myPALFrameCounter (frameReset cfg s) = myPALFrameCounter s"
  by (simp add: frameReset_def Let_def clearBuffers_def)

lemma myPALFrameCounter_reset: "myPALFrameCounter (reset tb cfg s) = 0"
  by (simp add: reset_def Let_def myPALFrameCounter_frameReset toggleFixedColors_def)

lemma toFloat_zero: "toFloat 0 = Finite 0 0"
  by (simp add: toFloat_def fround_def)

lemma palRatio_zero:
  "myFrameCounter s = 0 \<Longrightarrow> myPALFrameCounter s = 0 \<Longrightarrow> palRatio s = NaN"
  by (simp add: palRatio_def toFloat_zero fdiv_def)

lemma isPAL_NaN: "palRatio s = NaN \<Longrightarrow> \<not> isPAL s"
  by (simp add: isPAL_def fge_def)

subsection \<open>An HMOVE strobe inside the window\<close>




lemma frameStart_frameReset: "myClockWhenFrameStarted (frameReset cfg s) mod 3 = 0"
  by (simp add: frameReset_def Let_def clearBuffers_def)

lemma frameStart_reset: "myClockWhenFrameStarted (reset tb cfg s) mod 3 = 0"
  unfolding reset_def Let_def by (rule frameStart_frameReset)

lemma frameStart_systemCyclesReset:
  "myClockWhenFrameStarted s mod 3 = 0 \<Longrightarrow> myClockWhenFrameStarted (systemCyclesReset s) mod 3 = 0"
  by (simp add: systemCyclesReset_def Let_def mod_diff_eq [symmetric] del: mod_diff_eq)

lemma frameStart_startFrame:
  assumes "myClockWhenFrameStarted s mod 3 = 0"
    and "myClockWhenFrameStarted s \<le> cycles (mySystem s) * PIXEL_CLOCKS"
    and "cycles (mySystem s) * PIXEL_CLOCKS - myClockWhenFrameStarted s < 4294967296"
  shows "myClockWhenFrameStarted (startFrame s) mod 3 = 0"
proof -
  define x where "x = cycles (mySystem s) * 3 - myClockWhenFrameStarted s"
  have x3: "x mod 3 = 0"
    using assms(1) unfolding x_def by (simp add: mod_diff_eq [symmetric] del: mod_diff_eq)
  have u: "uint32 x = x" using assms(2,3) by (simp add: uint32_id x_def)
  have "x mod 228 mod 3 = 0" using x3 by (simp add: mod_mod_cancel)
  then have "(- (x mod 228)) mod 3 = 0" by (simp add: zmod_zminus1_eq_if)
  moreover have "myClockWhenFrameStarted (startFrame s) = - (uint32 x mod 228)"
    by (simp add: startFrame_def Let_def x_def resetCycles_def systemCyclesReset_def)
  ultimately show ?thesis by (simp add: u)
qed




subsection \<open>The counter of PAL frames\<close>

lemma myPALFrameCounter_endFrame:
  "myPALFrameCounter (endFrame s) =
     (if scanlines s \<le> myStartScanline s then myPALFrameCounter s
      else if 287 \<le> myScanlineCountForLastFrame (endFrame s) then myPALFrameCounter s + 1
      else myPALFrameCounter s)"
  by (simp add: endFrame_def Let_def counters_startFrame)

subsection \<open>Reading and writing a saved state\<close>

lemma getBytes_None: "(getBytes n st = None) = (length st < n)"
  by (simp add: getBytes_def)

lemma getBytes_Some: "getBytes n st = Some (x, r) \<Longrightarrow> r = drop n st"
  by (auto simp: getBytes_def split: if_splits)


























lemma length_encInt [simp]: "length (encInt w) = 4"
  by (simp add: encInt_def)













subsection \<open>C5: a write to HMxx that the running HMOVE cannot honour\<close>

text \<open>
  C5, as stated, makes the more-motion-required latch depend on the written byte being
  neither 0x70 nor 0x80. \<open>handleHM\<close> first masks the byte with 0xF0 and compares the
  masked value, and it never clears the latch. At the byte 0x85, written at
  \<open>hpos = 1\<close> while the HMOVE strobed at \<open>hpos = -20\<close> still has five motion
  clocks to go, the value differs from the register, the HMOVE is active in its window,
  the new value cannot be honoured, and the latch stays clear although the byte is
  neither 0x70 nor 0x80.
\<close>

theorem C5_written_byte_counterexample:
  "myHM exHM \<noteq> 0x85 AND 0xF0 \<and>
   (-20 :: int) \<noteq> NO_HMOVE \<and>
   hpos_of (23 * PIXEL_CLOCKS) 0 < min (-20 + 6 + myMotionClock exHM * 4) 7 \<and>
   \<not> (motclk_of (0x85 AND 0xF0) > myMotionClock exHM \<or>
       hpos_of (23 * PIXEL_CLOCKS) 0 \<le> min (-20 + 6 + motclk_of (0x85 AND 0xF0) * 4) 7) \<and>
   \<not> (myHMmmr (handleHM 23 0 (-20) 0x85 exHM) \<longleftrightarrow>
        ((0x85 :: 8 word) \<noteq> 0x70 \<and> (0x85 :: 8 word) \<noteq> 0x80))"
  by (simp add: exHM_def handleHM_def Let_def hpos_of_def crem_def cdiv_def motclk_of_def)

text \<open>
  C5, amended: when a write to HMxx whose masked value (byte AND 0xF0) differs from the
  register arrives while an HMOVE is active in its window, and the new value cannot be
  honoured by the running decrement counter, then for a position in [0,160) and a motion
  clock in [0,15] the position becomes (position - (15 - motion clock)) mod 160, the
  motion clock becomes 15, the register takes the masked value, and the
  more-motion-required latch is set afterwards if and only if it was set before or the
  masked value is neither 0x70 nor 0x80.
\<close>

theorem C5_handleHM_forced_shift:
  assumes "myHM ob \<noteq> v AND 0xF0"
    and "cur \<noteq> NO_HMOVE"
    and "hpos_of (cyc * PIXEL_CLOCKS) start < min (cur + 6 + myMotionClock ob * 4) 7"
    and "\<not> (motclk_of (v AND 0xF0) > myMotionClock ob \<or>
            hpos_of (cyc * PIXEL_CLOCKS) start \<le> min (cur + 6 + motclk_of (v AND 0xF0) * 4) 7)"
    and "0 \<le> myPos ob" and "myPos ob < 160"
    and "0 \<le> myMotionClock ob" and "myMotionClock ob \<le> 15"
  shows "myPos (handleHM cyc start cur v ob) = (myPos ob - (15 - myMotionClock ob)) mod 160
       \<and> myMotionClock (handleHM cyc start cur v ob) = 15
       \<and> myHM (handleHM cyc start cur v ob) = v AND 0xF0
       \<and> (myHMmmr (handleHM cyc start cur v ob) \<longleftrightarrow>
            (myHMmmr ob \<or> (v AND 0xF0 \<noteq> 0x70 \<and> v AND 0xF0 \<noteq> 0x80)))"
  using assms by (simp add: handleHM_def Let_def int16_id CLAMP_POS_mod)

theorem C5_handleHM_forced_shift_witness:
  "myPos (handleHM 23 0 (-20) 0x85 exHM) = 40
   \<and> myMotionClock (handleHM 23 0 (-20) 0x85 exHM) = 15
   \<and> myHM (handleHM 23 0 (-20) 0x85 exHM) = 0x80
   \<and> \<not> myHMmmr (handleHM 23 0 (-20) 0x85 exHM)"
  using C5_handleHM_forced_shift [where ob = exHM and v = "0x85" and cur = "-20"
      and cyc = 23 and start = 0]
  by (simp add: exHM_def hpos_of_def crem_def cdiv_def motclk_of_def)

subsection \<open>C1: the position registers after a position-mutating operation\<close>

text \<open>
  C1 says that every position register lies in [0,160) after every position-mutating
  operation. \<open>handleHM\<close>, \<open>handleHMOVE\<close>, \<open>handleRESMP\<close>, \<open>handlePendingMotions\<close>
  and \<open>applyActiveHMOVEMotion\<close> bring the position back into range (\<open>CLAMP_POS\<close>,
  or \<open>if(pos < 0) pos += SCANLINE_PIXEL\<close>); \<open>applyPreviousHMOVEMotion\<close> subtracts
  the motion clocks of the previous HMOVE and does not. After \<open>reset\<close>, the writes
  VBLANK = 2 (cycle 1), HMM0 = 0x70 (cycle 10), HMOVE at cycle 73 (\<open>hpos = 151\<close>) and
  RESM0 at cycle 76 (\<open>hpos = -68\<close> of the next scanline) leave missile 0 at
  position -13.
\<close>

theorem C1_RESM0_leaves_range:
  "map_option (\<lambda>s. myPos (myMissile0 s))
     (pokes exTables [(1, VBLANK, 0x02), (10, HMM0, 0x70), (73, HMOVE, 0), (76, RESM0, 0)] exTia)
   = Some (- 13)"
  by code_simp

subsection \<open>C3: updating the frame twice to the same clock\<close>

text \<open>
  C3 says that a second \<open>updateFrame\<close> to the same target clock changes nothing. When
  the last update ended exactly on a scanline boundary, \<open>myClocksToEndOfScanLine\<close>
  is 0, and the loop over the lines \<open>startLine .. endLine\<close> spends its only iteration
  on finishing that (empty) rest of the line: the first \<open>updateFrame(330)\<close> after the
  update to clock 228 leaves \<open>myClockAtLastUpdate\<close> at 228, and the second one renders
  the 34 pixels up to clock 330, moving the clock, the frame pointer and the pixel at
  offset 160.
\<close>

theorem C3_second_update_renders:
  "map_option (\<lambda>s. (myClockAtLastUpdate s, myFramePointer s, myCurrentFrameBuffer s 160))
     (Option.bind exBoundary (updateFrame exTables 330)) = Some (228, 160, 0)
   \<and> map_option (\<lambda>s. (myClockAtLastUpdate s, myFramePointer s, myCurrentFrameBuffer s 160))
     (Option.bind (Option.bind exBoundary (updateFrame exTables 330)) (updateFrame exTables 330))
     = Some (330, 194, 0x1A)"
  by code_simp

subsection \<open>C8: the latched inputs\<close>



subsection \<open>C6: VSYNC and the end of the frame\<close>

text \<open>
  C6, as the claim has it, fails when VSYNC is strobed on after the first scanline of
  the frame: strobed on at cycle 80, in the second scanline, and cleared 228 cycles (three
  scanlines) later, the frame is ended, the processor is stopped, and \<open>scanlines()\<close>
  is 4.
\<close>

theorem C6_counterexample:
  "map_option (\<lambda>s. (stopRequested (mySystem s), myPartialFrameFlag s, scanlines s))
     (pokes exTables [(1, VBLANK, 0x02), (80, VSYNC, 0x02), (308, VSYNC, 0x00)] exRunning)
   = Some (True, False, 4)"
  by code_simp

text \<open>
  C6, amended: if VSYNC is strobed on (bit 1 set) by a write at cycle \<open>c\<close>, other
  registers are written, and VSYNC is cleared by a write exactly three scanlines (228
  cycles, 3 * 228 colour clocks) later, then this last write returns, the processor is
  stopped, the partial-frame flag is clear, and \<open>scanlines()\<close> is three more than it was
  at the strobe, hence 3 when VSYNC was strobed on in the first scanline of the frame.
  A write to any register at or past the maximum number of scanlines returns with the
  processor stopped and the partial-frame flag clear; a write to a register other than
  VSYNC before that leaves both as they were. The clocks are consistent and below
  \<open>2 ^ 31\<close>, as the 32-bit arithmetic of the source needs.
\<close>

theorem C6_VSYNC_ends_frame:
  assumes "wfClocks s" and "myClockWhenFrameStarted s \<le> c * PIXEL_CLOCKS"
    and "(c + 3 * SCANLINE_CYCLES) * PIXEL_CLOCKS - myClockWhenFrameStarted s < 2147483648"
    and "v1 AND 0x02 \<noteq> 0" and "v2 AND 0x02 = 0"
    and "\<forall>p \<in> set ps. fst (snd p) \<noteq> VSYNC"
    and "pokes tb ((c, VSYNC, v1) # ps) s = Some s2"
    and "wfClocks t" and "myClockWhenFrameStarted t \<le> cycles (mySystem t) * PIXEL_CLOCKS"
    and "cycles (mySystem t) * PIXEL_CLOCKS - myClockWhenFrameStarted t < 2147483648"
    and "myMaximumNumberOfScanlines t \<le> scanlines t"
    and "wfClocks u" and "myClockWhenFrameStarted u \<le> cycles (mySystem u) * PIXEL_CLOCKS"
    and "cycles (mySystem u) * PIXEL_CLOCKS - myClockWhenFrameStarted u < 2147483648"
    and "scanlines u < myMaximumNumberOfScanlines u" and "r' \<noteq> VSYNC"
  shows "(\<exists>s3. pokes tb [(c + 3 * SCANLINE_CYCLES, VSYNC, v2)] s2 = Some s3
            \<and> stopRequested (mySystem s3) \<and> \<not> myPartialFrameFlag s3
            \<and> scanlines s3 = scanlines (atCycle c s) + 3
            \<and> (scanlines (atCycle c s) = 0 \<longrightarrow> scanlines s3 = 3))
       \<and> (\<exists>t'. pokeReg tb r v t = Some t'
            \<and> stopRequested (mySystem t') \<and> \<not> myPartialFrameFlag t')
       \<and> (\<exists>u'. pokeReg tb r' v' u = Some u'
            \<and> stopRequested (mySystem u') = stopRequested (mySystem u)
            \<and> myPartialFrameFlag u' = myPartialFrameFlag u)"
proof -
  from assms(7) obtain s1 where s1: "pokeReg tb VSYNC v1 (atCycle c s) = Some s1"
    and run: "pokes tb ps s1 = Some s2"
    by (auto split: option.splits)
  from wfClocks_pokeReg [OF s1] assms(1) have wf1: "wfClocks s1" by simp
  from pokeReg_VSYNC_on [OF s1 assms(4)]
  have f1: "myVSYNCFinishClock s1 = c * PIXEL_CLOCKS + SCANLINE_CLOCKS"
    and st1: "myClockWhenFrameStarted s1 = myClockWhenFrameStarted s" by simp_all
  from pokes_other [OF run assms(6) wf1] f1 st1
  have wf2: "wfClocks s2" and f2: "myVSYNCFinishClock s2 = c * PIXEL_CLOCKS + SCANLINE_CLOCKS"
    and st2: "myClockWhenFrameStarted s2 = myClockWhenFrameStarted s" by simp_all
  define s2' where "s2' = atCycle (c + 3 * SCANLINE_CYCLES) s2"
  have wf2': "wfClocks s2'" using wf2 by (simp add: s2'_def)
  have b2: "cycles (mySystem s2') * PIXEL_CLOCKS - myClockWhenFrameStarted s2' < 2147483648"
    using assms(3) st2 by (simp add: s2'_def)
  from pokeReg_total [OF wf2' b2] obtain s3 where s3: "pokeReg tb VSYNC v2 s2' = Some s3"
    by blast
  have fin: "myVSYNCFinishClock s2' \<le> cycles (mySystem s2') * PIXEL_CLOCKS"
    using f2 by (simp add: s2'_def)
  note off = pokeReg_VSYNC_off [OF s3 assms(5) fin]
  have sc: "scanlines s3 = scanlines (atCycle c s) + 3"
  proof (rule scanlines_later [where c = c])
    show "myClockWhenFrameStarted (atCycle c s) \<le> c * PIXEL_CLOCKS" using assms(2) by simp
    show "(c + 3 * SCANLINE_CYCLES) * PIXEL_CLOCKS - myClockWhenFrameStarted (atCycle c s) < 4294967296"
      using assms(3) by simp
    show "cycles (mySystem s3) = c + 3 * SCANLINE_CYCLES" using off by (simp add: s2'_def)
    show "myClockWhenFrameStarted s3 = myClockWhenFrameStarted (atCycle c s)"
      using off st2 by (simp add: s2'_def)
  qed simp_all
  have A: "\<exists>s3. pokes tb [(c + 3 * SCANLINE_CYCLES, VSYNC, v2)] s2 = Some s3
            \<and> stopRequested (mySystem s3) \<and> \<not> myPartialFrameFlag s3
            \<and> scanlines s3 = scanlines (atCycle c s) + 3
            \<and> (scanlines (atCycle c s) = 0 \<longrightarrow> scanlines s3 = 3)"
    using s3 off sc by (simp add: s2'_def)
  from pokeReg_total [OF assms(8,10)] obtain t' where t': "pokeReg tb r v t = Some t'" by blast
  from pokeReg_late [OF t' assms(9,10,11)] t'
  have B: "\<exists>t'. pokeReg tb r v t = Some t'
            \<and> stopRequested (mySystem t') \<and> \<not> myPartialFrameFlag t'" by simp
  from pokeReg_total [OF assms(12,14)] obtain u' where u': "pokeReg tb r' v' u = Some u'" by blast
  from pokeReg_early [OF u' assms(13,14,15,16)] u'
  have C: "\<exists>u'. pokeReg tb r' v' u = Some u'
            \<and> stopRequested (mySystem u') = stopRequested (mySystem u)
            \<and> myPartialFrameFlag u' = myPartialFrameFlag u" by simp
  from A B C show ?thesis by blast
qed


theorem C6_VSYNC_ends_frame_witness:
  "(\<exists>s2. pokes exTables [(0, VSYNC, 0x02), (1, VBLANK, 0x02)] exRunning = Some s2
      \<and> (\<exists>s3. pokes exTables [(0 + 3 * SCANLINE_CYCLES, VSYNC, 0x00)] s2 = Some s3
            \<and> stopRequested (mySystem s3) \<and> \<not> myPartialFrameFlag s3
            \<and> scanlines s3 = 3))
   \<and> (\<exists>t'. pokeReg exTables COLUBK 0x1A exLate = Some t'
            \<and> stopRequested (mySystem t') \<and> \<not> myPartialFrameFlag t')
   \<and> (\<exists>u'. pokeReg exTables COLUBK 0x1A (atCycle 10 exRunning) = Some u'
            \<and> \<not> stopRequested (mySystem u') \<and> myPartialFrameFlag u')"
proof -
  have h1: "wfClocks exRunning" by code_simp
  have h2: "myClockWhenFrameStarted exRunning \<le> 0 * PIXEL_CLOCKS" by code_simp
  have h3: "(0 + 3 * SCANLINE_CYCLES) * PIXEL_CLOCKS - myClockWhenFrameStarted exRunning < 2147483648"
    by code_simp
  have h4: "(0x02 :: 8 word) AND 0x02 \<noteq> 0" by simp
  have h5: "(0x00 :: 8 word) AND 0x02 = 0" by simp
  have h6: "\<forall>p \<in> set [(1 :: int, VBLANK, 0x02 :: 8 word)]. fst (snd p) \<noteq> VSYNC" by simp
  have "pokes exTables [(0, VSYNC, 0x02), (1, VBLANK, 0x02)] exRunning \<noteq> None" by code_simp
  then obtain s2 where h7: "pokes exTables ((0, VSYNC, 0x02) # [(1, VBLANK, 0x02)]) exRunning = Some s2"
    by auto
  have h8: "wfClocks exLate" by code_simp
  have h9: "myClockWhenFrameStarted exLate \<le> cycles (mySystem exLate) * PIXEL_CLOCKS" by code_simp
  have h10: "cycles (mySystem exLate) * PIXEL_CLOCKS - myClockWhenFrameStarted exLate < 2147483648"
    by code_simp
  have h11: "myMaximumNumberOfScanlines exLate \<le> scanlines exLate" by code_simp
  have h12: "wfClocks (atCycle 10 exRunning)" by code_simp
  have h13: "myClockWhenFrameStarted (atCycle 10 exRunning)
               \<le> cycles (mySystem (atCycle 10 exRunning)) * PIXEL_CLOCKS" by code_simp
  have h14: "cycles (mySystem (atCycle 10 exRunning)) * PIXEL_CLOCKS
               - myClockWhenFrameStarted (atCycle 10 exRunning) < 2147483648" by code_simp
  have h15: "scanlines (atCycle 10 exRunning) < myMaximumNumberOfScanlines (atCycle 10 exRunning)"
    by code_simp
  have h16: "COLUBK \<noteq> VSYNC" by simp
  have z: "scanlines (atCycle 0 exRunning) = 0" by code_simp
  have f: "\<not> stopRequested (mySystem (atCycle 10 exRunning))"
    "myPartialFrameFlag (atCycle 10 exRunning)" by code_simp+
  from C6_VSYNC_ends_frame [OF h1 h2 h3 h4 h5 h6 h7 h8 h9 h10 h11 h12 h13 h14 h15 h16,
      of COLUBK "0x1A" "0x1A"] h7 z f
  show ?thesis by auto
qed

subsection \<open>C10: isPAL before the first frame\<close>

text \<open>
  C10, as the claim has it, gives \<open>isPAL()\<close> no result before a frame has been
  completed. After reset both counters are 0, the quotient of the floating-point
  division is not a number, and \<open>isPAL()\<close> returns false.
\<close>

theorem C10_counterexample:
  "myFrameCounter (reset exTables exConfig exPowerOn) = 0
   \<and> myPALFrameCounter (reset exTables exConfig exPowerOn) = 0
   \<and> palRatio (reset exTables exConfig exPowerOn) = NaN
   \<and> isPAL (reset exTables exConfig exPowerOn) = False"
  by code_simp

text \<open>
  C10, amended: after \<open>reset\<close> the frame counter is 0, and so is the counter of PAL
  frames; reads and writes of registers and the start of a frame leave both at 0, and
  the end of a frame that is not skipped adds one to the frame counter. So before a
  frame has been completed \<open>isPAL()\<close> divides zero by zero; the division is not
  guarded, its floating-point quotient is not a number, and \<open>isPAL()\<close> returns false.
\<close>

theorem C10_isPAL_before_first_frame:
  "myFrameCounter (reset tb cfg s0) = 0 \<and> myPALFrameCounter (reset tb cfg s0) = 0
   \<and> palRatio (reset tb cfg s0) = NaN \<and> isPAL (reset tb cfg s0) = False
   \<and> (runAccesses tb acs (reset tb cfg s0) = Some (obs, s') \<longrightarrow>
        myFrameCounter s' = 0 \<and> myFrameCounter (startFrame s') = 0
        \<and> palRatio s' = NaN \<and> isPAL s' = False
        \<and> palRatio (startFrame s') = NaN \<and> isPAL (startFrame s') = False)
   \<and> myFrameCounter (endFrame t) =
        (if scanlines t \<le> myStartScanline t then myFrameCounter t else myFrameCounter t + 1)"
proof -
  have a: "myFrameCounter (reset tb cfg s0) = 0" "myPALFrameCounter (reset tb cfg s0) = 0"
    by (rule myFrameCounter_reset, rule myPALFrameCounter_reset)
  have n: "palRatio (reset tb cfg s0) = NaN" using a by (rule palRatio_zero)
  have c: "myFrameCounter s' = 0 \<and> myFrameCounter (startFrame s') = 0
        \<and> palRatio s' = NaN \<and> isPAL s' = False
        \<and> palRatio (startFrame s') = NaN \<and> isPAL (startFrame s') = False"
    if "runAccesses tb acs (reset tb cfg s0) = Some (obs, s')"
  proof -
    from counters_runAccesses [OF that] a
    have z: "myFrameCounter s' = 0" "myPALFrameCounter s' = 0" by simp_all
    then have z': "myFrameCounter (startFrame s') = 0" "myPALFrameCounter (startFrame s') = 0"
      by (simp_all add: counters_startFrame)
    from z z' show ?thesis by (simp add: palRatio_zero isPAL_NaN)
  qed
  from a n c show ?thesis by (simp add: isPAL_NaN myFrameCounter_endFrame)
qed

theorem C10_isPAL_before_first_frame_witness:
  "\<exists>obs s'. runAccesses exTables exAccesses (reset exTables exConfig exPowerOn) = Some (obs, s')
     \<and> myFrameCounter s' = 0 \<and> palRatio s' = NaN \<and> isPAL s' = False
     \<and> isPAL (startFrame s') = False"
proof -
  have "runAccesses exTables exAccesses (reset exTables exConfig exPowerOn) \<noteq> None"
    by code_simp
  then obtain obs s' where
    r: "runAccesses exTables exAccesses (reset exTables exConfig exPowerOn) = Some (obs, s')"
    by auto
  with C10_isPAL_before_first_frame [of exTables exConfig exPowerOn exAccesses obs s']
  show ?thesis by blast
qed

subsection \<open>C4: an HMOVE strobe inside the ignore window\<close>




subsection \<open>C7: isPAL at the threshold\<close>

text \<open>
  C7. The frames of \<open>exSixty\<close> are sixty frames after reset, 25 of them with at least
  287 scanlines: the quotient of the two counters is exactly 25/60. The quotient that
  \<open>isPAL()\<close> computes is the \<open>float\<close> nearest to 25/60, which is 13981013 / 2 ^ 25,
  below 25/60; the constant it is compared with is the \<open>double\<close> nearest to 25/60,
  which is 7505999378950827 / 2 ^ 54, above 25/60. So \<open>isPAL()\<close> returns false, where
  the claim has true.
\<close>

theorem C7_isPAL_at_25_of_60:
  "myFrameCounter exSixty = 60 \<and> myPALFrameCounter exSixty = 25
   \<and> palRatio exSixty = Finite 13981013 (- 25)
   \<and> fdiv 53 (toDouble 25) (toDouble 60) = Finite 7505999378950827 (- 54)
   \<and> isPAL exSixty = False"
proof -
  have c: "(myFrameCounter exSixty, myPALFrameCounter exSixty) = (60, 25)" by code_simp
  have q: "fdiv 24 (toFloat 25) (toFloat 60) = Finite 13981013 (- 25)" by code_simp
  have d: "fdiv 53 (toDouble 25) (toDouble 60) = Finite 7505999378950827 (- 54)" by code_simp
  have g: "fge (Finite 13981013 (- 25)) (Finite 7505999378950827 (- 54)) = False" by code_simp
  from c have r: "palRatio exSixty = Finite 13981013 (- 25)" by (simp add: palRatio_def q)
  from c r d g show ?thesis by (simp add: isPAL_def)
qed

subsection \<open>C9: save and load report failure\<close>



end
